theory Spec2Isabelle
  imports Main
begin

section \<open>Data model\<close>

text \<open>
  The server builds unsigned swap and transfer transactions, keeps each one in an
  in-memory registry keyed by the base64 encoding of its compiled message, and submits it
  once the user has signed.  Numbers of the TypeScript source are modelled as \<open>int\<close>
  (base units, basis points and attempt counters are integers, which a JavaScript number
  holds exactly up to \<open>2 ^ 53\<close>; the model's arithmetic on them is exact), an optional
  field as an \<open>option\<close>, a \<open>Map\<close> as a partial function.  The two places where the
  sources turn the decimal string of a token amount into a number, \<open>Number(...)\<close>, round
  to the nearest double (\<open>Number\<close> below).
\<close>

type_synonym pubkey = string

datatype TransactionType = BUY | SELL_PARTIAL | SELL_ALL | TRANSFER

text \<open>
  \<open>Config\<close> is declared by \<open>ConfigService\<close>, which is not among the sources.  The
  first eight fields are the ones the sources read.  \<open>BUY_FEE_BPS\<close>,
  \<open>SELL_FEE_BPS\<close> and \<open>MIN_TRADE_SIZE\<close> stand for the specification's
  \<open>feeBpsByType\<close> and \<open>minTradeSize\<close>, read by the fee calculator only.
\<close>

record Config =
  MIN_SLIPPAGE_BPS :: int
  USER_SLIPPAGE_BPS_MAX :: int
  AUTO_SLIPPAGE :: bool
  MAX_DEFAULT_SLIPPAGE_BPS :: int
  MAX_AUTO_SLIPPAGE_BPS :: int
  AUTO_SLIPPAGE_COLLISION_USD_VALUE :: int
  MAX_ACCOUNTS :: int
  MAX_BUILD_ATTEMPTS :: int
  BUY_FEE_BPS :: int
  SELL_FEE_BPS :: int
  MIN_TRADE_SIZE :: int

record UserPrebuildSwapRequest =
  buyTokenId :: string
  sellTokenId :: string
  sellQuantity :: int
  slippageBps :: "int option"

text \<open>
  \<open>ActiveSwapRequest = UserPrebuildSwapRequest & {accounts, userPublicKey}\<close>.  The type
  says \<open>sellTokenAccount: PublicKey\<close>, but \<open>buildSwapResponse\<close> tests it at run time,
  so it is optional here.
\<close>

record ActiveSwapRequest = UserPrebuildSwapRequest +
  buyTokenAccount :: pubkey
  sellTokenAccount :: "pubkey option"
  userPublicKey :: pubkey

text \<open>
  \<open>buildSwapResponse\<close> returns \<open>{transactionMessageBase64, ...request, hasFee,
  timestamp}\<close>: the request's fields and three more.
\<close>

record PrebuildSwapResponse = ActiveSwapRequest +
  transactionMessageBase64 :: string
  hasFee :: bool
  responseTimestamp :: int


text \<open>
  An instruction is the record of the constructor called and of its arguments:
  \<open>SystemTransfer from to lamports\<close> for \<open>SystemProgram.transfer\<close>,
  \<open>TokenTransfer source destination owner amount\<close> for \<open>createTransferInstruction\<close>,
  \<open>FeeTransfer fromAccount owner amount\<close> for \<open>createFeeTransferInstruction\<close>, and so
  on; \<open>RouteInstruction\<close> stands for an instruction of the quote provider.  The bytes
  the libraries make of the arguments, an amount as an unsigned 64-bit field among them,
  are outside the sources and not modelled.
\<close>

datatype instruction =
    RouteInstruction string
  | FeeTransfer pubkey pubkey int
  | CloseAccount pubkey pubkey
  | SetComputeUnitLimit int
  | SetComputeUnitPrice int
  | CreateAssociatedTokenAccount pubkey pubkey pubkey string
  | SystemTransfer pubkey pubkey int
  | TokenTransfer pubkey pubkey pubkey int

record MessageV0 =
  payerKey :: pubkey
  recentBlockhash :: string
  instructions :: "instruction list"
  addressTableLookups :: "string list"

text \<open>
  The registry data of a build.  The source stores under \<open>cfg\<close> the configuration object
  the build was handed (\<open>cfg: cfg\<close>, no copy); the model stores its value at that moment.
  What \<open>ConfigService\<close>, which is not among the sources, later does to that object is
  outside the model.
\<close>

record TransactionRegistryData =
  timestamp :: int
  transactionType :: TransactionType
  autoSlippage :: bool
  contextSlot :: int
  buildAttempts :: int
  activeSwapRequest :: "ActiveSwapRequest option"
  cfg :: "Config option"

record TransactionRegistryEntry = TransactionRegistryData +
  message :: MessageV0
  lastValidBlockHeight :: int

datatype ResponseType = success | fail | rebuild

record SubmitSignedTransactionResponse =
  responseType :: ResponseType
  txid :: "string option"
  submitTimestamp :: "int option"
  rebuilt :: "PrebuildSwapResponse option"
  errorText :: "string option"

record QuoteGetRequest =
  inputMint :: string
  outputMint :: string
  amount :: int
  quoteSlippageBps :: "int option"
  quoteAutoSlippage :: bool
  maxAutoSlippageBps :: int
  autoSlippageCollisionUsdValue :: int
  onlyDirectRoutes :: bool
  restrictIntermediateTokens :: bool
  maxAccounts :: int
  asLegacyTransaction :: bool

text \<open>
  What \<open>JupiterService.getSwapInstructions\<close> hands back.  \<open>quote.outAmount\<close> is the
  decimal string of an unsigned amount: the field holds the number the string denotes.
\<close>

record SwapInstructionsResult =
  swapInstructions :: "instruction list"
  addressLookupTableAccounts :: "string list"
  outAmount :: nat
  quoteContextSlot :: "int option"

text \<open>
  The RxJS \<open>Subscription\<close> object of a stream: its identity, and whether it has been
  closed (by \<open>unsubscribe\<close>, or by an error travelling down the pipeline).
\<close>

record Subscription =
  handle :: nat
  closed :: bool

record SwapSubscription =
  subject :: nat
  subscription :: Subscription
  request :: ActiveSwapRequest

text \<open>\<open>TransferRequest.amount\<close> is a \<open>bigint\<close>, an integer of any size.\<close>

record TransferRequest =
  fromAddress :: string
  toAddress :: string
  transferAmount :: int
  tokenId :: string

subsection \<open>Errors\<close>

text \<open>Every \<open>throw\<close> of the sources is a constructor; a function that can throw returns
  \<open>error + 'a\<close>.\<close>

datatype error =
    AuthError
  | SellTokenAccountRequired
  | SlippageTooHigh
  | SlippageTooLow int
  | TradeTooSmall
  | NegativeFeeAmount
  | QuoteUnavailable
  | NoSwapInstructionReceived
  | InvalidSwapType
  | FailedToBuildSwapResponseBecause error
  | FailedToBuildSwapResponse
  | TransactionNotFoundInRegistry
  | SubmissionError string
  | SubmissionRejected string
  | ActiveSwapRequestNotSet
  | ConfigNotSet
  | NoActiveSwapStreamToUpdate
  | NoActiveSwapStream
  | InsufficientUsdcForRentExemption
  | InvalidTransferRequest

subsection \<open>The service's state and its collaborators\<close>

text \<open>
  The mutable state of the process: the transaction registry of
  \<open>TransactionService\<close>, the per-user stream map of \<open>SwapService\<close>, a counter
  that hands out the identities of the objects \<open>new Subject()\<close> and \<open>subscribe\<close>
  create, and a logical clock.  Every observation of the outside world (chain state,
  quotes, the live configuration, \<open>Date.now()\<close>) is a function of the clock, so that
  two builds of the same request may see different worlds.  \<open>assemblerCalls\<close> is the
  trace of the \<open>buildAttempt\<close> arguments \<open>buildSwapResponse\<close> has been invoked with.
\<close>

record service_state =
  messageRegistry :: "string \<rightharpoonup> TransactionRegistryEntry"
  swapSubscriptions :: "string \<rightharpoonup> SwapSubscription"
  nextHandle :: nat
  clock :: nat
  assemblerCalls :: "int list"

text \<open>
  What \<open>TransactionService.signAndSendTransaction\<close> (not among the sources) can do when
  \<open>Service.signAndSendTransaction\<close> calls it inside its \<open>try\<close> block without
  \<open>await\<close>: hand back a response, throw into the \<open>try\<close> block, or hand back a promise
  that rejects later, which the \<open>catch\<close> block does not see.
\<close>

datatype submit_outcome =
    Returned SubmitSignedTransactionResponse
  | Thrown string
  | Rejected string

text \<open>
  The collaborators whose code is not among the sources, as parameters.  The submitter is
  a method of the object that owns the registry, so it is given the registry and returns
  it.  \<open>getTokenAccountBalance\<close> gives the number that the decimal string
  \<open>value.amount\<close> denotes.  \<open>buildOutlastsInterval t\<close> tells whether the build a stream
  started at time \<open>t\<close> is still running when the stream's interval fires again.
\<close>

record env =
  getUserContext :: "string \<Rightarrow> (string \<times> pubkey) option"
  deriveTokenAccounts :: "pubkey \<Rightarrow> string \<Rightarrow> string \<Rightarrow> pubkey \<times> pubkey option"
  config :: "nat \<Rightarrow> Config"
  determineTransactionType :: "nat \<Rightarrow> ActiveSwapRequest \<Rightarrow> TransactionType"
  getSwapInstructions :: "nat \<Rightarrow> QuoteGetRequest \<Rightarrow> pubkey \<Rightarrow> SwapInstructionsResult option"
  reassignRentInstructions :: "instruction list \<Rightarrow> instruction list"
  optimizeComputeInstructions ::
    "nat \<Rightarrow> instruction list \<Rightarrow> string list \<Rightarrow> int \<Rightarrow> Config \<Rightarrow> instruction list"
  getLatestBlockhash :: "nat \<Rightarrow> string \<times> int"
  getSlot :: "nat \<Rightarrow> int"
  feePayer :: pubkey
  toBase64 :: "MessageV0 \<Rightarrow> string"
  signTransaction :: "MessageV0 \<Rightarrow> string"
  TransactionService_signAndSendTransaction ::
    "nat \<Rightarrow> pubkey \<Rightarrow> string \<Rightarrow> TransactionRegistryEntry \<Rightarrow> Config \<Rightarrow>
     (string \<rightharpoonup> TransactionRegistryEntry) \<Rightarrow>
     submit_outcome \<times> (string \<rightharpoonup> TransactionRegistryEntry)"
  getBalance :: "nat \<Rightarrow> pubkey \<Rightarrow> int"
  getTokenAccountBalance :: "nat \<Rightarrow> pubkey \<Rightarrow> nat"
  getMinimumBalanceForRentExemption :: "nat \<Rightarrow> int"
  calculateRentExemptionFeeAmount :: "nat \<Rightarrow> int \<Rightarrow> int"
  getAssociatedTokenAddressSync :: "string \<Rightarrow> pubkey \<Rightarrow> pubkey"
  buildOutlastsInterval :: "nat \<Rightarrow> bool"

section \<open>Numbers read from decimal strings\<close>

text \<open>The number of binary digits of a natural number.\<close>

fun bitLength :: "nat \<Rightarrow> nat" where
  "bitLength n = (if n = 0 then 0 else Suc (bitLength (n div 2)))"

text \<open>
  JavaScript's \<open>Number(s)\<close> for the decimal string \<open>s\<close> of the natural number \<open>n\<close>: the
  double nearest to \<open>n\<close>, ties going to the even significand.  A double has 53 significant
  bits, so a number of more than 53 bits is rounded to a multiple of
  \<open>2 ^ (bitLength n - 53)\<close>; up to \<open>2 ^ 53\<close> the conversion is exact.
\<close>

definition Number :: "nat \<Rightarrow> int" where
  "Number n =
     (if n < 2 ^ 53 then int n
      else
      (let ulp = 2 ^ (bitLength n - 53);
           q = n div ulp;
           r = n mod ulp
       in if 2 * r < ulp \<or> (2 * r = ulp \<and> even q) then int (q * ulp) else int ((q + 1) * ulp)))"

section \<open>TransactionService: the registry\<close>

text \<open>
  Modelled from the spec: \<open>TransactionService\<close> is not among the sources.  The
  specification gives the registry three operations, \<open>get(key)\<close>, \<open>delete(key)\<close> and
  \<open>register(message, lastValidBlockHeight, type, autoSlippage, contextSlot, buildAttempt,
  snapshot?) -> key\<close>, the key being the encoding of the compiled message; the sources
  call them \<open>getRegisteredTransaction\<close>, \<open>deleteFromRegistry\<close> and
  \<open>registerTransaction\<close>.
\<close>

type_synonym registry = "string \<rightharpoonup> TransactionRegistryEntry"

text \<open>Modelled from the spec: \<open>get(key)\<close>, a lookup that leaves the registry as it is
  (\<open>SwapService.getMessageFromRegistry\<close>, which forwards to it, is documented as
  "Retrieves a transaction message from the registry").\<close>

definition getRegisteredTransaction :: "registry \<Rightarrow> string \<Rightarrow> TransactionRegistryEntry option" where
  "getRegisteredTransaction reg k = reg k"

text \<open>Modelled from the spec: \<open>delete(key)\<close>, the removal of the key.\<close>

definition deleteFromRegistry :: "registry \<Rightarrow> string \<Rightarrow> registry" where
  "deleteFromRegistry reg k = reg(k := None)"

text \<open>Modelled from the spec: \<open>register(...) -> key\<close>; the entry is stored under the
  base64 encoding of the message, with the time of registration.\<close>

definition registerTransaction ::
  "env \<Rightarrow> nat \<Rightarrow> registry \<Rightarrow> MessageV0 \<Rightarrow> int \<Rightarrow> TransactionType \<Rightarrow> bool \<Rightarrow> int \<Rightarrow> int \<Rightarrow>
   ActiveSwapRequest option \<Rightarrow> Config option \<Rightarrow> string \<times> registry" where
  "registerTransaction e t reg msg lvbh ty auto slot attempts ar c =
     (let k = toBase64 e msg in
      (k, reg(k \<mapsto> \<lparr>timestamp = int t, transactionType = ty, autoSlippage = auto,
                    contextSlot = slot, buildAttempts = attempts, activeSwapRequest = ar,
                    cfg = c, message = msg, lastValidBlockHeight = lvbh\<rparr>)))"

text \<open>
  Modelled from the spec: \<open>buildAndRegisterTransactionMessage\<close> compiles the
  instructions against the latest blockhash, with the service's fee payer as payer, and
  registers the message with the registry data the assembler hands over.
\<close>

definition buildAndRegisterTransactionMessage ::
  "env \<Rightarrow> nat \<Rightarrow> instruction list \<Rightarrow> string list \<Rightarrow> TransactionRegistryData \<Rightarrow> registry \<Rightarrow>
   string \<times> registry" where
  "buildAndRegisterTransactionMessage e t ixs alts d reg =
     (let msg = \<lparr>payerKey = feePayer e, recentBlockhash = fst (getLatestBlockhash e t),
                 instructions = ixs, addressTableLookups = alts\<rparr>;
          k = toBase64 e msg
      in (k, reg(k \<mapsto> \<lparr>timestamp = timestamp d, transactionType = transactionType d,
                       autoSlippage = autoSlippage d, contextSlot = contextSlot d,
                       buildAttempts = buildAttempts d,
                       activeSwapRequest = activeSwapRequest d, cfg = cfg d, message = msg,
                       lastValidBlockHeight = snd (getLatestBlockhash e t)\<rparr>)))"

text \<open>
  Modelled from the spec: \<open>createTokenCloseInstruction\<close> is not among the sources; the
  call site says \<open>if swap type is sell_all (conditional occurs within function)\<close> and the
  specification \<open>emitted only for SELL_ALL, to reclaim rent\<close>.
\<close>

definition createTokenCloseInstruction ::
  "pubkey \<Rightarrow> pubkey \<Rightarrow> string \<Rightarrow> int \<Rightarrow> TransactionType \<Rightarrow> instruction option" where
  "createTokenCloseInstruction owner account mint quantity ty =
     (if ty = SELL_ALL then Some (CloseAccount account owner) else None)"

section \<open>FeeService\<close>

text \<open>
  Modelled from the spec: \<open>FeeService\<close> is not among the sources.
  \<open>calculateFeeAmount(quantity, type, cfg)\<close> applies the fee-bps tier for BUY against
  SELL, rejects quantities below \<open>minTradeSize\<close>, and its result is at most the quantity;
  the specification's example (1_000_000 at 100 bps gives 10_000) fixes the scale, the
  quotient is rounded down, and it is capped at the quantity.
  \<open>createFeeTransferInstruction(fromAccount, owner, amount)\<close> builds one instruction and
  fails if the amount is negative.
\<close>

text \<open>Modelled from the spec: the fee-bps tier of a transaction type
  (\<open>feeBpsByType\<close>).\<close>

definition feeBps :: "Config \<Rightarrow> TransactionType \<Rightarrow> int" where
  "feeBps c ty = (case ty of BUY \<Rightarrow> BUY_FEE_BPS c | SELL_PARTIAL \<Rightarrow> SELL_FEE_BPS c
                    | SELL_ALL \<Rightarrow> SELL_FEE_BPS c | TRANSFER \<Rightarrow> 0)"

text \<open>Modelled from the spec: \<open>FeeService.calculateFeeAmount\<close>, as described above.\<close>

definition calculateFeeAmount :: "int \<Rightarrow> TransactionType \<Rightarrow> Config \<Rightarrow> error + int" where
  "calculateFeeAmount quantity ty c =
     (if quantity < MIN_TRADE_SIZE c then Inl TradeTooSmall
      else Inr (min quantity (quantity * feeBps c ty div 10000)))"

text \<open>Modelled from the spec: \<open>FeeService.createFeeTransferInstruction\<close>, as described
  above.\<close>

definition createFeeTransferInstruction :: "pubkey \<Rightarrow> pubkey \<Rightarrow> int \<Rightarrow> error + instruction" where
  "createFeeTransferInstruction fromAccount owner amt =
     (if amt < 0 then Inl NegativeFeeAmount else Inr (FeeTransfer fromAccount owner amt))"

section \<open>SwapService\<close>

text \<open>JavaScript truthiness of an optional number: \<open>undefined\<close> and \<open>0\<close> are falsy.\<close>

definition truthy :: "int option \<Rightarrow> bool" where
  "truthy v = (case v of None \<Rightarrow> False | Some n \<Rightarrow> n \<noteq> 0)"

text \<open>The two computed fields of the local \<open>slippageSettings\<close> of \<open>buildSwapResponse\<close>.\<close>

definition slippageSettings_slippageBps :: "'a ActiveSwapRequest_scheme \<Rightarrow> Config \<Rightarrow> int option" where
  "slippageSettings_slippageBps r c =
     (if truthy (slippageBps r) then slippageBps r
      else if AUTO_SLIPPAGE c then None else Some (MAX_DEFAULT_SLIPPAGE_BPS c))"

definition slippageSettings_autoSlippage :: "'a ActiveSwapRequest_scheme \<Rightarrow> Config \<Rightarrow> bool" where
  "slippageSettings_autoSlippage r c = (if truthy (slippageBps r) then False else AUTO_SLIPPAGE c)"

definition swapInstructionRequest :: "ActiveSwapRequest \<Rightarrow> Config \<Rightarrow> int \<Rightarrow> QuoteGetRequest" where
  "swapInstructionRequest r c swapAmount =
     \<lparr>inputMint = sellTokenId r, outputMint = buyTokenId r, amount = swapAmount,
      quoteSlippageBps = slippageSettings_slippageBps r c,
      quoteAutoSlippage = slippageSettings_autoSlippage r c,
      maxAutoSlippageBps = MAX_AUTO_SLIPPAGE_BPS c,
      autoSlippageCollisionUsdValue = AUTO_SLIPPAGE_COLLISION_USD_VALUE c,
      onlyDirectRoutes = False, restrictIntermediateTokens = True,
      maxAccounts = MAX_ACCOUNTS c, asLegacyTransaction = False\<rparr>"

definition organizeInstructions ::
  "instruction list \<Rightarrow> instruction option \<Rightarrow> instruction option \<Rightarrow> instruction list" where
  "organizeInstructions swapIxs feeTransferInstruction tokenCloseInstruction =
     (let ixs = swapIxs;
          ixs = (case feeTransferInstruction of Some i \<Rightarrow> ixs @ [i] | None \<Rightarrow> ixs);
          ixs = (case tokenCloseInstruction of Some i \<Rightarrow> ixs @ [i] | None \<Rightarrow> ixs)
      in ixs)"

text \<open>The fee-transfer instruction of a build: from the sell account and the fee taken
  before the quote for a BUY, from the buy account and a fee on the quoted output for a
  SELL (\<open>quotedOut\<close> is \<open>Number(quote.outAmount)\<close>).\<close>

definition feeTransferInstructionFor ::
  "ActiveSwapRequest \<Rightarrow> Config \<Rightarrow> TransactionType \<Rightarrow> pubkey \<Rightarrow> int \<Rightarrow> int \<Rightarrow> error + instruction" where
  "feeTransferInstructionFor r c ty sellAccount buyFeeAmount quotedOut =
     (if ty = BUY then createFeeTransferInstruction sellAccount (userPublicKey r) buyFeeAmount
      else if ty = SELL_ALL \<or> ty = SELL_PARTIAL then
        (case calculateFeeAmount quotedOut ty c of
           Inl err \<Rightarrow> Inl err
         | Inr sellFeeAmount \<Rightarrow>
             createFeeTransferInstruction (buyTokenAccount r) (userPublicKey r) sellFeeAmount)
      else Inl InvalidSwapType)"

definition swapResponse :: "ActiveSwapRequest \<Rightarrow> string \<Rightarrow> bool \<Rightarrow> int \<Rightarrow> PrebuildSwapResponse" where
  "swapResponse r base64Message fee t =
     \<lparr>buyTokenId = buyTokenId r, sellTokenId = sellTokenId r, sellQuantity = sellQuantity r,
      slippageBps = slippageBps r, buyTokenAccount = buyTokenAccount r,
      sellTokenAccount = sellTokenAccount r, userPublicKey = userPublicKey r,
      transactionMessageBase64 = base64Message, hasFee = fee, responseTimestamp = t\<rparr>"

text \<open>
  \<open>SwapService.buildSwapResponse\<close>, step by step as in the source.  The invocation is
  recorded in the trace and the clock advances first; an error leaves the registry as it
  was; registration is the last step.
\<close>

definition buildSwapResponse ::
  "env \<Rightarrow> ActiveSwapRequest \<Rightarrow> Config \<Rightarrow> int \<Rightarrow> service_state \<Rightarrow>
   (error + PrebuildSwapResponse) \<times> service_state" where
  "buildSwapResponse e r c buildAttempt s0 =
     (let s = s0\<lparr>clock := Suc (clock s0), assemblerCalls := assemblerCalls s0 @ [buildAttempt]\<rparr>;
          t = clock s
      in
      case sellTokenAccount r of
        None \<Rightarrow> (Inl SellTokenAccountRequired, s)
      | Some sellAccount \<Rightarrow>
      if truthy (slippageBps r) \<and> the (slippageBps r) > USER_SLIPPAGE_BPS_MAX c
        then (Inl SlippageTooHigh, s)
      else if truthy (slippageBps r) \<and> the (slippageBps r) < MIN_SLIPPAGE_BPS c
        then (Inl (SlippageTooLow (MIN_SLIPPAGE_BPS c)), s)
      else
      (let ty = determineTransactionType e t r in
       case (if ty = BUY then calculateFeeAmount (sellQuantity r) ty c else Inr 0) of
         Inl err \<Rightarrow> (Inl err, s)
       | Inr buyFeeAmount \<Rightarrow>
       (let swapAmount = sellQuantity r - buyFeeAmount;
            tokenCloseInstruction =
              createTokenCloseInstruction (userPublicKey r) sellAccount (sellTokenId r)
                (sellQuantity r) ty
        in
        case getSwapInstructions e t (swapInstructionRequest r c swapAmount) (userPublicKey r) of
          None \<Rightarrow> (Inl QuoteUnavailable, s)
        | Some res \<Rightarrow>
        if swapInstructions res = [] then (Inl NoSwapInstructionReceived, s)
        else
        (case feeTransferInstructionFor r c ty sellAccount buyFeeAmount (Number (outAmount res)) of
           Inl err \<Rightarrow> (Inl err, s)
         | Inr feeTransferInstruction \<Rightarrow>
         (let organizedInstructions =
                organizeInstructions (swapInstructions res) (Some feeTransferInstruction)
                  tokenCloseInstruction;
              rentReassignedInstructions = reassignRentInstructions e organizedInstructions;
              slot = (case quoteContextSlot res of None \<Rightarrow> 0 | Some n \<Rightarrow> n);
              optimizedInstructions =
                optimizeComputeInstructions e t rentReassignedInstructions
                  (addressLookupTableAccounts res) slot c;
              txRegistryData =
                \<lparr>timestamp = int t, transactionType = ty,
                 autoSlippage = slippageSettings_autoSlippage r c, contextSlot = slot,
                 buildAttempts = buildAttempt, activeSwapRequest = Some r, cfg = Some c\<rparr>;
              registered =
                buildAndRegisterTransactionMessage e t optimizedInstructions
                  (addressLookupTableAccounts res) txRegistryData (messageRegistry s)
          in (Inr (swapResponse r (fst registered) True (int t)),
              s\<lparr>messageRegistry := snd registered\<rparr>))))))"


definition deleteMessageFromRegistry :: "service_state \<Rightarrow> string \<Rightarrow> service_state" where
  "deleteMessageFromRegistry s k = s\<lparr>messageRegistry := deleteFromRegistry (messageRegistry s) k\<rparr>"

subsection \<open>Swap streams\<close>

definition hasActiveStream :: "service_state \<Rightarrow> string \<Rightarrow> bool" where
  "hasActiveStream s userId = (swapSubscriptions s userId \<noteq> None)"


definition updateActiveRequest ::
  "string \<Rightarrow> ActiveSwapRequest \<Rightarrow> service_state \<Rightarrow> error + service_state" where
  "updateActiveRequest userId r s =
     (case swapSubscriptions s userId of
        None \<Rightarrow> Inl NoActiveSwapStream
      | Some sub \<Rightarrow>
          Inr (s\<lparr>swapSubscriptions := (swapSubscriptions s)(userId \<mapsto> sub\<lparr>request := r\<rparr>)\<rparr>))"

text \<open>
  \<open>SwapService.startSwapStream\<close>: only when the user has no entry are a new subject and a
  new interval subscription created (their identities are the next two handles) and stored
  with the request.  The result is the subject stored for the user.
\<close>

definition startSwapStream ::
  "string \<Rightarrow> ActiveSwapRequest \<Rightarrow> service_state \<Rightarrow> nat option \<times> service_state" where
  "startSwapStream userId r s =
     (let s' =
        (if swapSubscriptions s userId = None then
           s\<lparr>swapSubscriptions :=
               (swapSubscriptions s)(userId \<mapsto>
                 \<lparr>subject = nextHandle s,
                  subscription = \<lparr>handle = Suc (nextHandle s), closed = False\<rparr>,
                  request = r\<rparr>),
             nextHandle := Suc (Suc (nextHandle s))\<rparr>
         else s)
      in (map_option subject (swapSubscriptions s' userId), s'))"

text \<open>\<open>SwapService.stopSwapStream\<close>: the subscription is unsubscribed, the subject
  completed, and the user's entry, the only reference to either, removed.\<close>

definition stopSwapStream :: "string \<Rightarrow> service_state \<Rightarrow> service_state" where
  "stopSwapStream userId s =
     (case swapSubscriptions s userId of
        None \<Rightarrow> s
      | Some sub \<Rightarrow> s\<lparr>swapSubscriptions := (swapSubscriptions s)(userId := None)\<rparr>)"


section \<open>Service\<close>

text \<open>The object \<open>{...request, buyTokenAccount, sellTokenAccount, userPublicKey}\<close> that
  \<open>fetchSwap\<close>, \<open>startSwapStream\<close> and \<open>updateSwapRequest\<close> build.\<close>

definition activeRequestOf ::
  "env \<Rightarrow> pubkey \<Rightarrow> UserPrebuildSwapRequest \<Rightarrow> ActiveSwapRequest" where
  "activeRequestOf e walletPublicKey r =
     (let accounts = deriveTokenAccounts e walletPublicKey (buyTokenId r) (sellTokenId r) in
      \<lparr>buyTokenId = buyTokenId r, sellTokenId = sellTokenId r, sellQuantity = sellQuantity r,
       slippageBps = slippageBps r, buyTokenAccount = fst accounts,
       sellTokenAccount = snd accounts, userPublicKey = walletPublicKey\<rparr>)"

text \<open>
  The loop of \<open>buildSwapResponseWithRebuild\<close>, from the attempt number it is entered
  with: \<open>for (buildAttempt = ...; buildAttempt <= cfg.MAX_BUILD_ATTEMPTS; buildAttempt++)\<close>.
\<close>

function buildLoop ::
  "env \<Rightarrow> ActiveSwapRequest \<Rightarrow> Config \<Rightarrow> int \<Rightarrow> service_state \<Rightarrow>
   (error + PrebuildSwapResponse) \<times> service_state" where
  "buildLoop e r c buildAttempt s =
     (if buildAttempt \<le> MAX_BUILD_ATTEMPTS c then
        (case buildSwapResponse e r c buildAttempt s of
           (Inr response, s') \<Rightarrow> (Inr response, s')
         | (Inl err, s') \<Rightarrow>
             if buildAttempt \<ge> MAX_BUILD_ATTEMPTS c \<or> slippageBps r \<noteq> None
             then (Inl (FailedToBuildSwapResponseBecause err), s')
             else buildLoop e r c (buildAttempt + 1) s')
      else (Inl FailedToBuildSwapResponse, s))"
  by pat_completeness auto
termination
  by (relation "measure (\<lambda>(e, r, c, buildAttempt, s). nat (MAX_BUILD_ATTEMPTS c + 1 - buildAttempt))") auto

definition buildSwapResponseWithRebuild ::
  "env \<Rightarrow> ActiveSwapRequest \<Rightarrow> Config \<Rightarrow> int \<Rightarrow> service_state \<Rightarrow>
   (error + PrebuildSwapResponse) \<times> service_state" where
  "buildSwapResponseWithRebuild e r c priorBuildAttempts s =
     buildLoop e r c (priorBuildAttempts + 1) s"

definition fetchSwap ::
  "env \<Rightarrow> string \<Rightarrow> UserPrebuildSwapRequest \<Rightarrow> service_state \<Rightarrow>
   (error + PrebuildSwapResponse) \<times> service_state" where
  "fetchSwap e jwtToken r s =
     (case getUserContext e jwtToken of
        None \<Rightarrow> (Inl AuthError, s)
      | Some (userId, walletPublicKey) \<Rightarrow>
          buildSwapResponseWithRebuild e (activeRequestOf e walletPublicKey r)
            (config e (clock s)) 0 s)"



text \<open>\<open>Service.startSwapStream\<close> and \<open>Service.stopSwapStream\<close>: authenticate, then forward.\<close>

definition Service_startSwapStream ::
  "env \<Rightarrow> string \<Rightarrow> UserPrebuildSwapRequest \<Rightarrow> service_state \<Rightarrow>
   (error + nat option) \<times> service_state" where
  "Service_startSwapStream e jwtToken r s =
     (case getUserContext e jwtToken of
        None \<Rightarrow> (Inl AuthError, s)
      | Some (userId, walletPublicKey) \<Rightarrow>
          (let res = startSwapStream userId (activeRequestOf e walletPublicKey r) s
           in (Inr (fst res), snd res)))"

definition Service_stopSwapStream ::
  "env \<Rightarrow> string \<Rightarrow> service_state \<Rightarrow> (error + unit) \<times> service_state" where
  "Service_stopSwapStream e jwtToken s =
     (case getUserContext e jwtToken of
        None \<Rightarrow> (Inl AuthError, s)
      | Some (userId, walletPublicKey) \<Rightarrow> (Inr (), stopSwapStream userId s))"

text \<open>
  \<open>Service.signAndSendTransaction\<close>.  The live configuration is read once, before the
  submission.  A response handed back is returned as it is; a rejection of the promise
  passes through untouched; an error thrown into the \<open>try\<close> block reaches the \<open>catch\<close>
  block, which decides between failing and rebuilding.
  (\<open>if (!this.swapService)\<close> cannot fire: the field is set at initialisation.)
\<close>

definition rebuildResponse :: "PrebuildSwapResponse \<Rightarrow> SubmitSignedTransactionResponse" where
  "rebuildResponse r =
     \<lparr>responseType = rebuild, txid = None, submitTimestamp = None, rebuilt = Some r,
      errorText = None\<rparr>"

definition signAndSendTransaction ::
  "env \<Rightarrow> string \<Rightarrow> string \<Rightarrow> string \<Rightarrow> service_state \<Rightarrow>
   (error + SubmitSignedTransactionResponse) \<times> service_state" where
  "signAndSendTransaction e jwtToken userSignature base64TransactionMessage s =
     (case getUserContext e jwtToken of
        None \<Rightarrow> (Inl AuthError, s)
      | Some (userId, walletPublicKey) \<Rightarrow>
      (case getRegisteredTransaction (messageRegistry s) base64TransactionMessage of
         None \<Rightarrow> (Inl TransactionNotFoundInRegistry, s)
       | Some entry \<Rightarrow>
       (let liveCfg = config e (clock s);
            sent = TransactionService_signAndSendTransaction e (clock s) walletPublicKey userSignature entry liveCfg
                     (messageRegistry s);
            s1 = s\<lparr>messageRegistry := snd sent, clock := Suc (clock s)\<rparr>
        in
        case fst sent of
          Returned response \<Rightarrow> (Inr response, s1)
        | Rejected err \<Rightarrow> (Inl (SubmissionRejected err), s1)
        | Thrown err \<Rightarrow>
            if transactionType entry = TRANSFER then (Inl (SubmissionError err), s1)
            else if buildAttempts entry + 1 \<ge> MAX_BUILD_ATTEMPTS liveCfg \<or> \<not> autoSlippage entry
              then (Inl (SubmissionError err), s1)
            else
            (case activeSwapRequest entry of
               None \<Rightarrow> (Inl ActiveSwapRequestNotSet, s1)
             | Some storedRequest \<Rightarrow>
             (case cfg entry of
                None \<Rightarrow> (Inl ConfigNotSet, s1)
              | Some storedCfg \<Rightarrow>
                (case buildSwapResponseWithRebuild e storedRequest storedCfg (buildAttempts entry)
                        (deleteMessageFromRegistry s1 base64TransactionMessage) of
                   (Inl err', s2) \<Rightarrow> (Inl err', s2)
                 | (Inr rebuiltSwapResponse, s2) \<Rightarrow>
                     (Inr (rebuildResponse rebuiltSwapResponse), s2)))))))"

definition updateSwapRequest ::
  "env \<Rightarrow> string \<Rightarrow> UserPrebuildSwapRequest \<Rightarrow> service_state \<Rightarrow>
   (error + PrebuildSwapResponse) \<times> service_state" where
  "updateSwapRequest e jwtToken r s =
     (case getUserContext e jwtToken of
        None \<Rightarrow> (Inl AuthError, s)
      | Some (userId, walletPublicKey) \<Rightarrow>
          if \<not> hasActiveStream s userId then (Inl NoActiveSwapStreamToUpdate, s)
          else
          (case fetchSwap e jwtToken r s of
             (Inl err, s1) \<Rightarrow> (Inl err, s1)
           | (Inr response, s1) \<Rightarrow>
               (case updateActiveRequest userId (activeRequestOf e walletPublicKey r) s1 of
                  Inl err \<Rightarrow> (Inl err, s1)
                | Inr s2 \<Rightarrow> (Inr response, s2))))"

section \<open>TransferService\<close>

text \<open>\<open>USDC_MAINNET_PUBLIC_KEY\<close> of \<open>@/constants/tokens\<close>, the mint the sources' own
  examples use for USDC.\<close>

definition USDC_MAINNET_PUBLIC_KEY :: string where
  "USDC_MAINNET_PUBLIC_KEY = ''EPjFWdd5AufqSSqeM2qN1xzybapC8G4wEGGkZwyTDt1v''"

text \<open>
  The common tail of \<open>getTransfer\<close>: read the slot and the latest blockhash, drop the
  instructions that are \<open>null\<close>, compile the message with the fee payer as payer and
  register it as a TRANSFER with \<open>autoSlippage = false\<close> and build attempt 1.
\<close>

definition registerTransfer ::
  "env \<Rightarrow> instruction option list \<Rightarrow> service_state \<Rightarrow> (error + string) \<times> service_state" where
  "registerTransfer e candidates s =
     (let t = clock s;
          slot = getSlot e t;
          allInstructions = List.map_filter (\<lambda>i. i) candidates;
          msg = \<lparr>payerKey = feePayer e, recentBlockhash = fst (getLatestBlockhash e t),
                 instructions = allInstructions, addressTableLookups = []\<rparr>;
          registered = registerTransaction e t (messageRegistry s) msg
                         (snd (getLatestBlockhash e t)) TRANSFER False slot 1 None None
      in (Inr (fst registered), s\<lparr>messageRegistry := snd registered, clock := Suc (clock s)\<rparr>))"

definition getTransfer ::
  "env \<Rightarrow> TransferRequest \<Rightarrow> service_state \<Rightarrow> (error + string) \<times> service_state" where
  "getTransfer e r s =
     (let t = clock s in
      if tokenId r = ''SOLANA'' then
        registerTransfer e
          [None, None, None, Some (SystemTransfer (fromAddress r) (toAddress r) (transferAmount r)), None] s
      else if tokenId r = USDC_MAINNET_PUBLIC_KEY then
        (let tokenMint = tokenId r;
             fromTokenAccount = getAssociatedTokenAddressSync e tokenMint (fromAddress r);
             toTokenAccount = getAssociatedTokenAddressSync e tokenMint (toAddress r);
             toTokenAccountSolBalance = getBalance e t toTokenAccount;
             fromTokenAccountUsdcBalance = getTokenAccountBalance e t fromTokenAccount;
             transferInstruction =
               TokenTransfer fromTokenAccount toTokenAccount (fromAddress r) (transferAmount r)
         in
         if toTokenAccountSolBalance = 0 then
           (let createATAInstruction =
                  CreateAssociatedTokenAccount (feePayer e) toTokenAccount (toAddress r) tokenMint;
                rentExemptionAmountLamports = getMinimumBalanceForRentExemption e t;
                rentExemptionFeeAmountUsdcBaseUnits =
                  calculateRentExemptionFeeAmount e t rentExemptionAmountLamports
            in
            if Number fromTokenAccountUsdcBalance < rentExemptionFeeAmountUsdcBaseUnits
              then (Inl InsufficientUsdcForRentExemption, s)
            else
            (case createFeeTransferInstruction fromTokenAccount (fromAddress r)
                    rentExemptionFeeAmountUsdcBaseUnits of
               Inl err \<Rightarrow> (Inl err, s)
             | Inr createATAFeeInstruction \<Rightarrow>
                 registerTransfer e
                   [Some (SetComputeUnitLimit 40000), Some (SetComputeUnitPrice 100000),
                    Some createATAInstruction, Some transferInstruction,
                    Some createATAFeeInstruction] s))
         else
           registerTransfer e
             [Some (SetComputeUnitLimit 40000), Some (SetComputeUnitPrice 100000), None,
              Some transferInstruction, None] s)
      else (Inl InvalidTransferRequest, s))"

section \<open>Auxiliary definitions for the statements\<close>

text \<open>The state right after \<open>buildSwapResponse\<close> has been entered with attempt number
  \<open>a\<close>: the clock has advanced and the invocation is on the trace.\<close>

definition tick :: "int \<Rightarrow> service_state \<Rightarrow> service_state" where
  "tick a s = s\<lparr>clock := Suc (clock s), assemblerCalls := assemblerCalls s @ [a]\<rparr>"

text \<open>
  A request chain as a client drives it: \<open>fetchSwap\<close>, then one
  \<open>signAndSendTransaction\<close> per signature in the list, each for the message the previous
  step handed out, for as long as the answer carries a rebuilt response.
\<close>

fun submitChain :: "env \<Rightarrow> string \<Rightarrow> string list \<Rightarrow> string \<Rightarrow> service_state \<Rightarrow> service_state" where
  "submitChain e jwtToken [] k s = s"
| "submitChain e jwtToken (sg # sgs) k s =
     (case signAndSendTransaction e jwtToken sg k s of
        (Inl err, s') \<Rightarrow> s'
      | (Inr response, s') \<Rightarrow>
          (case rebuilt response of
             None \<Rightarrow> s'
           | Some r \<Rightarrow> submitChain e jwtToken sgs (transactionMessageBase64 r) s'))"

definition requestChain ::
  "env \<Rightarrow> string \<Rightarrow> UserPrebuildSwapRequest \<Rightarrow> string list \<Rightarrow> service_state \<Rightarrow> service_state" where
  "requestChain e jwtToken r sgs s =
     (case fetchSwap e jwtToken r s of
        (Inl err, s1) \<Rightarrow> s1
      | (Inr response, s1) \<Rightarrow> submitChain e jwtToken sgs (transactionMessageBase64 response) s1)"

text \<open>What the submitter answers when \<open>signAndSendTransaction\<close> calls it for an entry,
  and the state it leaves behind.\<close>

definition sendOutcome ::
  "env \<Rightarrow> pubkey \<Rightarrow> string \<Rightarrow> TransactionRegistryEntry \<Rightarrow> service_state \<Rightarrow> submit_outcome" where
  "sendOutcome e w sg ent s =
     fst (TransactionService_signAndSendTransaction e (clock s) w sg ent (config e (clock s)) (messageRegistry s))"

definition afterSend ::
  "env \<Rightarrow> pubkey \<Rightarrow> string \<Rightarrow> TransactionRegistryEntry \<Rightarrow> service_state \<Rightarrow> service_state" where
  "afterSend e w sg ent s =
     s\<lparr>messageRegistry :=
         snd (TransactionService_signAndSendTransaction e (clock s) w sg ent (config e (clock s)) (messageRegistry s)),
       clock := Suc (clock s)\<rparr>"

subsection \<open>Submission and the registry\<close>




subsection \<open>A concrete world\<close>

text \<open>
  One user, a quote provider that always answers with one route instruction, a chain whose
  blockhash changes with every tick, builds that finish within the stream's interval, and
  a submitter whose submissions are always thrown back and which leaves the registry alone.
\<close>

definition cfg0 :: Config where
  "cfg0 = \<lparr>MIN_SLIPPAGE_BPS = 10, USER_SLIPPAGE_BPS_MAX = 1000, AUTO_SLIPPAGE = True,
           MAX_DEFAULT_SLIPPAGE_BPS = 200, MAX_AUTO_SLIPPAGE_BPS = 500,
           AUTO_SLIPPAGE_COLLISION_USD_VALUE = 1000, MAX_ACCOUNTS = 50,
           MAX_BUILD_ATTEMPTS = 3, BUY_FEE_BPS = 100, SELL_FEE_BPS = 50,
           MIN_TRADE_SIZE = 15\<rparr>"

definition quote0 :: SwapInstructionsResult where
  "quote0 = \<lparr>swapInstructions = [RouteInstruction ''route''], addressLookupTableAccounts = [],
             outAmount = 5000, quoteContextSlot = Some 7\<rparr>"

definition env0 :: env where
  "env0 = \<lparr>getUserContext = (\<lambda>jwt. if jwt = ''jwt'' then Some (''user'', ''wallet'') else None),
           deriveTokenAccounts = (\<lambda>w b sl. (''buyAccount'', Some ''sellAccount'')),
           config = (\<lambda>t. cfg0),
           determineTransactionType = (\<lambda>t r. BUY),
           getSwapInstructions = (\<lambda>t q payer. Some quote0),
           reassignRentInstructions = (\<lambda>ixs. ixs),
           optimizeComputeInstructions =
             (\<lambda>t ixs alts slot c. SetComputeUnitLimit 200000 # SetComputeUnitPrice 1 # ixs),
           getLatestBlockhash = (\<lambda>t. (replicate (Suc t) CHR ''b'', 100)),
           getSlot = (\<lambda>t. 7),
           feePayer = ''feePayer'',
           toBase64 = (\<lambda>m. recentBlockhash m),
           signTransaction = (\<lambda>m. ''signature''),
           TransactionService_signAndSendTransaction = (\<lambda>t w sg en c reg. (Thrown ''error'', reg)),
           getBalance = (\<lambda>t a. 0),
           getTokenAccountBalance = (\<lambda>t a. 100),
           getMinimumBalanceForRentExemption = (\<lambda>t. 2039280),
           calculateRentExemptionFeeAmount = (\<lambda>t lamports. 300),
           getAssociatedTokenAddressSync = (\<lambda>mint owner. ''ata-'' @ owner),
           buildOutlastsInterval = (\<lambda>t. False)\<rparr>"

definition state0 :: service_state where
  "state0 = \<lparr>messageRegistry = Map.empty, swapSubscriptions = Map.empty, nextHandle = 0,
             clock = 0, assemblerCalls = []\<rparr>"

definition userRequest0 :: UserPrebuildSwapRequest where
  "userRequest0 = \<lparr>buyTokenId = ''TOKEN'', sellTokenId = USDC_MAINNET_PUBLIC_KEY,
                   sellQuantity = 1000000, slippageBps = None\<rparr>"

definition request0 :: ActiveSwapRequest where
  "request0 = activeRequestOf env0 ''wallet'' userRequest0"

definition userRequest1 :: UserPrebuildSwapRequest where
  "userRequest1 = \<lparr>buyTokenId = ''TOKEN'', sellTokenId = USDC_MAINNET_PUBLIC_KEY,
                   sellQuantity = 2000000, slippageBps = Some 50\<rparr>"

definition request1 :: ActiveSwapRequest where
  "request1 = activeRequestOf env0 ''wallet'' userRequest1"

text \<open>The state after the user's first \<open>startSwapStream\<close> in the empty state.\<close>

definition state1 :: service_state where
  "state1 = snd (startSwapStream ''user'' request0 state0)"

definition transferRequest0 :: TransferRequest where
  "transferRequest0 = \<lparr>fromAddress = ''alice'', toAddress = ''bob'', transferAmount = 50,
                       tokenId = USDC_MAINNET_PUBLIC_KEY\<rparr>"

text \<open>The same world with a quote provider that has no route.\<close>

definition envQuoteDown :: env where
  "envQuoteDown = env0\<lparr>getSwapInstructions := (\<lambda>t q payer. None)\<rparr>"

text \<open>The state after the user's \<open>fetchSwap\<close> in the empty state, under \<open>cfg0\<close>.\<close>

definition stateFetched :: service_state where
  "stateFetched = snd (fetchSwap env0 ''jwt'' userRequest0 state0)"



text \<open>A request that pins a slippage of 0 basis points.\<close>

definition requestZero :: ActiveSwapRequest where
  "requestZero = \<lparr>buyTokenId = ''TOKEN'', sellTokenId = USDC_MAINNET_PUBLIC_KEY,
                  sellQuantity = 1000000, slippageBps = Some 0, buyTokenAccount = ''buyAccount'',
                  sellTokenAccount = Some ''sellAccount'', userPublicKey = ''wallet''\<rparr>"

text \<open>The same world with a sender who holds 1000 base units of USDC.\<close>

definition envFunded :: env where
  "envFunded = env0\<lparr>getTokenAccountBalance := (\<lambda>t a. 1000)\<rparr>"

text \<open>The same world in which the chain classifies every swap as SELL_ALL.\<close>

definition envSell :: env where
  "envSell = env0\<lparr>determineTransactionType := (\<lambda>t r. SELL_ALL)\<rparr>"


text \<open>A SELL_ALL world whose quote promises 9007199254740995 base units, \<open>2 ^ 53 + 3\<close>,
  under a configuration whose sell fee is the whole amount.\<close>

definition cfgFullFee :: Config where
  "cfgFullFee = cfg0\<lparr>SELL_FEE_BPS := 10000\<rparr>"

definition envSellBig :: env where
  "envSellBig =
     envSell\<lparr>getSwapInstructions := (\<lambda>t q payer. Some (quote0\<lparr>outAmount := 9007199254740995\<rparr>))\<rparr>"

text \<open>The same world with a sender who holds 9007199254740995 base units of USDC while
  the rent-exemption fee comes to 9007199254740996.\<close>

definition envEdge :: env where
  "envEdge = env0\<lparr>getTokenAccountBalance := (\<lambda>t a. 9007199254740995),
                    calculateRentExemptionFeeAmount := (\<lambda>t lamports. 9007199254740996)\<rparr>"



section \<open>Properties\<close>

subsection \<open>Numbers read from decimal strings\<close>

declare bitLength.simps [simp del]

lemma bitLength_0 [simp]: "bitLength 0 = 0"
  by (simp add: bitLength.simps)

lemma bitLength_Suc0 [simp]: "bitLength (Suc 0) = Suc 0"
  by (simp add: bitLength.simps)

lemma bitLength_bracket: "2 ^ k \<le> n \<Longrightarrow> n < 2 ^ Suc k \<Longrightarrow> bitLength n = Suc k"
proof (induction k arbitrary: n)
  case 0
  then have "n = Suc 0" by simp
  then show ?case by simp
next
  case (Suc k)
  from Suc.prems have "2 ^ k \<le> n div 2" "n div 2 < 2 ^ Suc k" "n \<noteq> 0" by auto
  with Suc.IH[of "n div 2"] show ?case by (subst bitLength.simps) simp
qed

lemma Number_exact: "n \<le> 2 ^ 53 \<Longrightarrow> Number n = int n"
proof (cases "n < 2 ^ 53")
  case True
  then show ?thesis by (simp add: Number_def)
next
  case False
  assume "n \<le> 2 ^ 53"
  with False have n: "n = 9007199254740992" by simp
  have "bitLength 9007199254740992 = Suc 53" by (rule bitLength_bracket) simp_all
  then show ?thesis unfolding n by (simp add: Number_def Let_def)
qed

lemma Number_edge: "Number 9007199254740995 = 9007199254740996"
proof -
  have "bitLength 9007199254740995 = Suc 53" by (rule bitLength_bracket) simp_all
  then show ?thesis by (simp add: Number_def Let_def)
qed

subsection \<open>What one build does to the state\<close>

lemma buildSwapResponse_Inl:
  "buildSwapResponse e r c a s = (Inl err, s') \<Longrightarrow> s' = tick a s"
  by (auto simp: buildSwapResponse_def tick_def Let_def split: option.splits sum.splits if_splits)

lemma buildSwapResponse_Inr_aux:
  assumes "buildSwapResponse e r c a s = (Inr resp, s')"
  shows "s' = (tick a s)\<lparr>messageRegistry :=
                 (messageRegistry s)(transactionMessageBase64 resp := messageRegistry s' (transactionMessageBase64 resp))\<rparr>
         \<and> messageRegistry s' (transactionMessageBase64 resp) \<noteq> None
         \<and> buildAttempts (the (messageRegistry s' (transactionMessageBase64 resp))) = a
         \<and> cfg (the (messageRegistry s' (transactionMessageBase64 resp))) = Some c
         \<and> activeSwapRequest (the (messageRegistry s' (transactionMessageBase64 resp))) = Some r
         \<and> autoSlippage (the (messageRegistry s' (transactionMessageBase64 resp))) = slippageSettings_autoSlippage r c
         \<and> transactionType (the (messageRegistry s' (transactionMessageBase64 resp))) = determineTransactionType e (Suc (clock s)) r
         \<and> determineTransactionType e (Suc (clock s)) r \<noteq> TRANSFER"
  using assms
  by (auto simp: buildSwapResponse_def tick_def Let_def buildAndRegisterTransactionMessage_def
        feeTransferInstructionFor_def swapResponse_def
      split: option.splits sum.splits if_splits)

lemma buildSwapResponse_Inr:
  assumes "buildSwapResponse e r c a s = (Inr resp, s')"
  shows "\<exists>ent. s' = (tick a s)\<lparr>messageRegistry := (messageRegistry s)(transactionMessageBase64 resp \<mapsto> ent)\<rparr>
           \<and> buildAttempts ent = a \<and> cfg ent = Some c \<and> activeSwapRequest ent = Some r
           \<and> autoSlippage ent = slippageSettings_autoSlippage r c
           \<and> transactionType ent = determineTransactionType e (Suc (clock s)) r
           \<and> transactionType ent \<noteq> TRANSFER"
proof -
  from buildSwapResponse_Inr_aux[OF assms]
  obtain ent where "messageRegistry s' (transactionMessageBase64 resp) = Some ent" by blast
  with buildSwapResponse_Inr_aux[OF assms] show ?thesis
    by (intro exI[of _ ent]) simp
qed

lemma buildSwapResponse_calls:
  "assemblerCalls (snd (buildSwapResponse e r c a s)) = assemblerCalls s @ [a]"
  by (cases "buildSwapResponse e r c a s"; cases "fst (buildSwapResponse e r c a s)")
     (auto dest!: buildSwapResponse_Inl buildSwapResponse_Inr simp: tick_def)

subsection \<open>The rebuild loop\<close>

declare buildLoop.simps [simp del]

lemma buildLoop_trace:
  "buildLoop e r c a s = (res, s') \<Longrightarrow>
   \<exists>k. a - 1 \<le> k \<and> (k \<le> MAX_BUILD_ATTEMPTS c \<or> k = a - 1)
     \<and> assemblerCalls s' = assemblerCalls s @ [a..k]
     \<and> swapSubscriptions s' = swapSubscriptions s \<and> nextHandle s' = nextHandle s
     \<and> (case res of
           Inl err \<Rightarrow> messageRegistry s' = messageRegistry s
             \<and> (err = FailedToBuildSwapResponse \<or> (\<exists>x. err = FailedToBuildSwapResponseBecause x))
         | Inr resp \<Rightarrow> a \<le> k \<and>
           (\<exists>ent. messageRegistry s' = (messageRegistry s)(transactionMessageBase64 resp \<mapsto> ent)
              \<and> buildAttempts ent = k \<and> cfg ent = Some c \<and> activeSwapRequest ent = Some r
              \<and> autoSlippage ent = slippageSettings_autoSlippage r c
              \<and> transactionType ent \<noteq> TRANSFER))"
proof (induction e r c a s arbitrary: res s' rule: buildLoop.induct)
  case (1 e r c a s)
  show ?case
  proof (cases "a \<le> MAX_BUILD_ATTEMPTS c")
    case False
    with "1.prems" have "s' = s" "res = Inl FailedToBuildSwapResponse"
      by (auto simp: buildLoop.simps[of e r c a s])
    then show ?thesis by (intro exI[of _ "a - 1"]) simp
  next
    case le: True
    obtain b s1 where b: "buildSwapResponse e r c a s = (b, s1)" by (cases "buildSwapResponse e r c a s")
    show ?thesis
    proof (cases b)
      case (Inr resp)
      with b le "1.prems" have eq: "res = Inr resp" "s' = s1"
        by (auto simp: buildLoop.simps[of e r c a s])
      from buildSwapResponse_Inr[OF b[unfolded Inr]] obtain ent where
        "s1 = (tick a s)\<lparr>messageRegistry := (messageRegistry s)(transactionMessageBase64 resp \<mapsto> ent)\<rparr>"
        "buildAttempts ent = a" "cfg ent = Some c" "activeSwapRequest ent = Some r"
        "autoSlippage ent = slippageSettings_autoSlippage r c" "transactionType ent \<noteq> TRANSFER"
        by blast
      with eq le show ?thesis by (intro exI[of _ a]) (auto simp: tick_def)
    next
      case (Inl err)
      from buildSwapResponse_Inl[OF b[unfolded Inl]] have s1: "s1 = tick a s" .
      show ?thesis
      proof (cases "a \<ge> MAX_BUILD_ATTEMPTS c \<or> slippageBps r \<noteq> None")
        case True
        with b Inl le "1.prems" have "res = Inl (FailedToBuildSwapResponseBecause err)" "s' = s1"
          by (auto simp: buildLoop.simps[of e r c a s])
        with s1 le show ?thesis by (intro exI[of _ a]) (simp add: tick_def)
      next
        case False
        with b Inl le "1.prems" have rec: "buildLoop e r c (a + 1) s1 = (res, s')"
          by (auto simp: buildLoop.simps[of e r c a s])
        from "1.IH"[OF le b[symmetric] _ _ rec] Inl False
        obtain k where k: "a \<le> k" "k \<le> MAX_BUILD_ATTEMPTS c \<or> k = a"
          "assemblerCalls s' = assemblerCalls s1 @ [a + 1..k]"
          "swapSubscriptions s' = swapSubscriptions s1" "nextHandle s' = nextHandle s1"
          "(case res of
           Inl err \<Rightarrow> messageRegistry s' = messageRegistry s1
             \<and> (err = FailedToBuildSwapResponse \<or> (\<exists>x. err = FailedToBuildSwapResponseBecause x))
         | Inr resp \<Rightarrow> a + 1 \<le> k \<and>
           (\<exists>ent. messageRegistry s' = (messageRegistry s1)(transactionMessageBase64 resp \<mapsto> ent)
              \<and> buildAttempts ent = k \<and> cfg ent = Some c \<and> activeSwapRequest ent = Some r
              \<and> autoSlippage ent = slippageSettings_autoSlippage r c
              \<and> transactionType ent \<noteq> TRANSFER))"
          by auto
        from k(1) have "[a..k] = a # [a + 1..k]" by (simp add: upto_rec1)
        with k s1 le show ?thesis
          by (intro exI[of _ k]) (auto simp: tick_def split: sum.splits)
      qed
    qed
  qed
qed

lemma buildLoop_explicit_slippage:
  assumes "slippageBps r \<noteq> None" "a \<le> MAX_BUILD_ATTEMPTS c"
  shows "buildLoop e r c a s =
           (case buildSwapResponse e r c a s of
              (Inr response, s') \<Rightarrow> (Inr response, s')
            | (Inl err, s') \<Rightarrow> (Inl (FailedToBuildSwapResponseBecause err), s'))"
  using assms by (subst buildLoop.simps) (auto split: prod.splits sum.splits)

subsection \<open>Submission\<close>

lemma signAndSend_noauth:
  "getUserContext e jwt = None \<Longrightarrow> signAndSendTransaction e jwt sg k s = (Inl AuthError, s)"
  by (simp add: signAndSendTransaction_def)

lemma signAndSend_miss:
  "messageRegistry s k = None \<Longrightarrow> assemblerCalls (snd (signAndSendTransaction e jwt sg k s)) = assemblerCalls s
     \<and> isl (fst (signAndSendTransaction e jwt sg k s))"
  by (simp add: signAndSendTransaction_def getRegisteredTransaction_def split: option.splits)

lemma signAndSend_found:
  assumes "getUserContext e jwt = Some (u, w)" "messageRegistry s k = Some ent"
  shows "signAndSendTransaction e jwt sg k s =
    (case sendOutcome e w sg ent s of
       Returned response \<Rightarrow> (Inr response, afterSend e w sg ent s)
     | Rejected err \<Rightarrow> (Inl (SubmissionRejected err), afterSend e w sg ent s)
     | Thrown err \<Rightarrow>
         if transactionType ent = TRANSFER \<or> \<not> autoSlippage ent
            \<or> buildAttempts ent + 1 \<ge> MAX_BUILD_ATTEMPTS (config e (clock s))
         then (Inl (SubmissionError err), afterSend e w sg ent s)
         else (case activeSwapRequest ent of
                 None \<Rightarrow> (Inl ActiveSwapRequestNotSet, afterSend e w sg ent s)
               | Some r \<Rightarrow>
                 (case cfg ent of
                    None \<Rightarrow> (Inl ConfigNotSet, afterSend e w sg ent s)
                  | Some c \<Rightarrow>
                    (case buildSwapResponseWithRebuild e r c (buildAttempts ent)
                            (deleteMessageFromRegistry (afterSend e w sg ent s) k) of
                       (Inl err', s2) \<Rightarrow> (Inl err', s2)
                     | (Inr resp, s2) \<Rightarrow> (Inr (rebuildResponse resp), s2)))))"
  using assms
  by (auto simp: signAndSendTransaction_def getRegisteredTransaction_def Let_def afterSend_def
        sendOutcome_def split: submit_outcome.splits option.splits)

lemma buildLoop_chain:
  assumes "buildLoop e r c a s = (b, s2)"
  shows "\<exists>kk. a - 1 \<le> kk \<and> (kk \<le> MAX_BUILD_ATTEMPTS c \<or> kk = a - 1)
           \<and> assemblerCalls s2 = assemblerCalls s @ [a..kk]
           \<and> (\<forall>resp. b = Inr resp \<longrightarrow> a \<le> kk \<and>
                 (\<exists>ent'. messageRegistry s2 (transactionMessageBase64 resp) = Some ent'
                    \<and> buildAttempts ent' = kk \<and> cfg ent' = Some c))"
proof -
  from buildLoop_trace[OF assms] obtain kk where kk:
    "a - 1 \<le> kk" "kk \<le> MAX_BUILD_ATTEMPTS c \<or> kk = a - 1"
    "assemblerCalls s2 = assemblerCalls s @ [a..kk]"
    and kcase: "(case b of
           Inl err \<Rightarrow> messageRegistry s2 = messageRegistry s
             \<and> (err = FailedToBuildSwapResponse \<or> (\<exists>x. err = FailedToBuildSwapResponseBecause x))
         | Inr resp \<Rightarrow> a \<le> kk \<and>
           (\<exists>ent. messageRegistry s2 = (messageRegistry s)(transactionMessageBase64 resp \<mapsto> ent)
              \<and> buildAttempts ent = kk \<and> cfg ent = Some c \<and> activeSwapRequest ent = Some r
              \<and> autoSlippage ent = slippageSettings_autoSlippage r c
              \<and> transactionType ent \<noteq> TRANSFER))"
    by blast
  from kcase have "\<forall>resp. b = Inr resp \<longrightarrow> a \<le> kk \<and>
                 (\<exists>ent'. messageRegistry s2 (transactionMessageBase64 resp) = Some ent'
                    \<and> buildAttempts ent' = kk \<and> cfg ent' = Some c)"
    by (cases b) auto
  with kk show ?thesis by blast
qed

lemma signAndSend_chain_step:
  assumes H: "\<forall>t w sg en lc reg resp. fst (TransactionService_signAndSendTransaction e t w sg en lc reg) = Returned resp \<longrightarrow> rebuilt resp = None"
    and ent: "messageRegistry s k = Some ent" "cfg ent = Some c"
    and cnt: "int (length (assemblerCalls s)) \<le> n0 + buildAttempts ent" "buildAttempts ent \<le> MAX_BUILD_ATTEMPTS c"
    and run: "signAndSendTransaction e jwt sg k s = (res, s')"
  shows "int (length (assemblerCalls s')) \<le> n0 + MAX_BUILD_ATTEMPTS c
       \<and> (\<forall>resp r'. res = Inr resp \<and> rebuilt resp = Some r' \<longrightarrow>
            (\<exists>ent'. messageRegistry s' (transactionMessageBase64 r') = Some ent' \<and> cfg ent' = Some c
               \<and> int (length (assemblerCalls s')) \<le> n0 + buildAttempts ent'
               \<and> buildAttempts ent' \<le> MAX_BUILD_ATTEMPTS c))"
proof (cases "getUserContext e jwt")
  case None
  with run cnt show ?thesis by (auto simp: signAndSend_noauth)
next
  case (Some uw)
  obtain u w where uw: "uw = (u, w)" by (cases uw)
  note found = signAndSend_found[OF Some[unfolded uw] ent(1), of sg]
  have calls_after: "assemblerCalls (afterSend e w sg ent s) = assemblerCalls s"
    by (simp add: afterSend_def)
  show ?thesis
  proof (cases "sendOutcome e w sg ent s")
    case (Returned response)
    then have "rebuilt response = None" using H by (auto simp: sendOutcome_def)
    with found run Returned cnt calls_after show ?thesis by auto
  next
    case (Rejected err)
    with found run cnt calls_after show ?thesis by auto
  next
    case (Thrown err)
    show ?thesis
    proof (cases "transactionType ent = TRANSFER \<or> \<not> autoSlippage ent
            \<or> buildAttempts ent + 1 \<ge> MAX_BUILD_ATTEMPTS (config e (clock s))")
      case True
      with found run Thrown cnt calls_after show ?thesis by auto
    next
      case False
      show ?thesis
      proof (cases "activeSwapRequest ent")
        case None
        with found run Thrown False cnt calls_after show ?thesis by auto
      next
        case (Some r)
        let ?s1 = "deleteMessageFromRegistry (afterSend e w sg ent s) k"
        obtain b s2 where b: "buildLoop e r c (buildAttempts ent + 1) ?s1 = (b, s2)"
          by (cases "buildLoop e r c (buildAttempts ent + 1) ?s1")
        have calls1: "assemblerCalls ?s1 = assemblerCalls s"
          by (simp add: deleteMessageFromRegistry_def afterSend_def)
        from buildLoop_chain[OF b] calls1 obtain kk where kk:
          "buildAttempts ent \<le> kk" "kk \<le> MAX_BUILD_ATTEMPTS c \<or> kk = buildAttempts ent"
          "assemblerCalls s2 = assemblerCalls s @ [buildAttempts ent + 1..kk]"
          "\<forall>resp. b = Inr resp \<longrightarrow>
             (\<exists>ent'. messageRegistry s2 (transactionMessageBase64 resp) = Some ent'
               \<and> buildAttempts ent' = kk \<and> cfg ent' = Some c)"
          by auto
        have len: "int (length (assemblerCalls s2)) \<le> n0 + kk"
          using kk(1,3) cnt(1) by simp
        have kkle: "kk \<le> MAX_BUILD_ATTEMPTS c" using kk(2) cnt(2) by auto
        show ?thesis
        proof (cases b)
          case (Inl err')
          with found run Thrown False Some ent(2) b have "res = Inl err'" "s' = s2"
            by (auto simp: buildSwapResponseWithRebuild_def)
          with len kkle show ?thesis by auto
        next
          case (Inr resp)
          with found run Thrown False Some ent(2) b have rs: "res = Inr (rebuildResponse resp)" "s' = s2"
            by (auto simp: buildSwapResponseWithRebuild_def)
          from kk(4) Inr obtain ent' where "messageRegistry s2 (transactionMessageBase64 resp) = Some ent'"
            "buildAttempts ent' = kk" "cfg ent' = Some c" by auto
          with rs len kkle show ?thesis by (auto simp: rebuildResponse_def)
        qed
      qed
    qed
  qed
qed

lemma submitChain_bound:
  assumes H: "\<forall>t w sg en lc reg resp. fst (TransactionService_signAndSendTransaction e t w sg en lc reg) = Returned resp \<longrightarrow> rebuilt resp = None"
  shows "messageRegistry s k = Some ent \<Longrightarrow> cfg ent = Some c \<Longrightarrow>
     int (length (assemblerCalls s)) \<le> n0 + buildAttempts ent \<Longrightarrow>
     buildAttempts ent \<le> MAX_BUILD_ATTEMPTS c \<Longrightarrow>
     int (length (assemblerCalls (submitChain e jwt sgs k s))) \<le> n0 + MAX_BUILD_ATTEMPTS c"
proof (induction sgs arbitrary: k s ent)
  case Nil
  then show ?case by simp
next
  case (Cons sg sgs)
  obtain res s' where run: "signAndSendTransaction e jwt sg k s = (res, s')"
    by (cases "signAndSendTransaction e jwt sg k s")
  note st = signAndSend_chain_step[OF H Cons.prems(1,2,3,4) run]
  show ?case
  proof (cases res)
    case (Inl err)
    with run st show ?thesis by simp
  next
    case (Inr resp)
    show ?thesis
    proof (cases "rebuilt resp")
      case None
      with run Inr st show ?thesis by simp
    next
      case (Some r')
      with st Inr obtain ent' where e': "messageRegistry s' (transactionMessageBase64 r') = Some ent'"
        "cfg ent' = Some c" "int (length (assemblerCalls s')) \<le> n0 + buildAttempts ent'"
        "buildAttempts ent' \<le> MAX_BUILD_ATTEMPTS c" by blast
      from Cons.IH[OF e'] run Inr Some show ?thesis by simp
    qed
  qed
qed

lemma requestChain_bound:
  assumes H: "\<forall>t w sg en lc reg resp. fst (TransactionService_signAndSendTransaction e t w sg en lc reg) = Returned resp \<longrightarrow> rebuilt resp = None"
  shows "length (assemblerCalls (requestChain e jwt q sgs s))
           \<le> length (assemblerCalls s) + nat (MAX_BUILD_ATTEMPTS (config e (clock s)))"
proof (cases "getUserContext e jwt")
  case None
  then show ?thesis by (simp add: requestChain_def fetchSwap_def)
next
  case (Some uw)
  obtain u w where uw: "uw = (u, w)" by (cases uw)
  let ?c = "config e (clock s)"
  let ?r = "activeRequestOf e w q"
  obtain b s1 where b: "buildLoop e ?r ?c 1 s = (b, s1)" by (cases "buildLoop e ?r ?c 1 s")
  then have fs: "fetchSwap e jwt q s = (b, s1)"
    using Some uw by (simp add: fetchSwap_def buildSwapResponseWithRebuild_def)
  from buildLoop_chain[OF b] obtain kk where kk:
    "0 \<le> kk" "kk \<le> MAX_BUILD_ATTEMPTS ?c \<or> kk = 0"
    "assemblerCalls s1 = assemblerCalls s @ [1..kk]"
    and kcase: "\<forall>resp. b = Inr resp \<longrightarrow> 1 \<le> kk \<and>
             (\<exists>ent'. messageRegistry s1 (transactionMessageBase64 resp) = Some ent'
               \<and> buildAttempts ent' = kk \<and> cfg ent' = Some ?c)"
    by auto
  have len: "int (length (assemblerCalls s1)) = int (length (assemblerCalls s)) + kk"
    using kk(1,3) by simp
  show ?thesis
  proof (cases b)
    case (Inl err)
    with fs have "requestChain e jwt q sgs s = s1" by (simp add: requestChain_def)
    with len kk(1,2) show ?thesis by auto
  next
    case (Inr resp)
    with kcase obtain ent' where e': "messageRegistry s1 (transactionMessageBase64 resp) = Some ent'"
      "buildAttempts ent' = kk" "cfg ent' = Some ?c" "1 \<le> kk" by auto
    with kk(2) have le: "buildAttempts ent' \<le> MAX_BUILD_ATTEMPTS ?c" by auto
    have cnt: "int (length (assemblerCalls s1)) \<le> int (length (assemblerCalls s)) + buildAttempts ent'"
      using len e'(2) by simp
    from submitChain_bound[OF H e'(1,3) cnt le, of jwt sgs] fs Inr
    have "int (length (assemblerCalls (requestChain e jwt q sgs s)))
            \<le> int (length (assemblerCalls s)) + MAX_BUILD_ATTEMPTS ?c"
      by (simp add: requestChain_def)
    with le e'(4) show ?thesis by linarith
  qed
qed

subsection \<open>Instruction order\<close>

text \<open>
  C7.  \<open>organizeInstructions\<close> returns the route instructions in their order, then the
  fee-transfer instruction when there is one, then the token-account-close instruction
  when there is one; and a close instruction exists only for a SELL_ALL swap.
\<close>

theorem organizeInstructions_order:
  "organizeInstructions routeIxs feeIx closeIx =
     routeIxs @ (case feeIx of None \<Rightarrow> [] | Some i \<Rightarrow> [i]) @ (case closeIx of None \<Rightarrow> [] | Some i \<Rightarrow> [i])
   \<and> (createTokenCloseInstruction owner account mint quantity ty \<noteq> None \<longrightarrow> ty = SELL_ALL)"
  by (simp add: organizeInstructions_def createTokenCloseInstruction_def split: option.splits)

theorem organizeInstructions_order_witness:
  "createTokenCloseInstruction ''owner'' ''account'' ''mint'' 5 SELL_ALL \<noteq> None
   \<and> organizeInstructions [RouteInstruction ''a'', RouteInstruction ''b'']
        (Some (FeeTransfer ''account'' ''owner'' 3))
        (createTokenCloseInstruction ''owner'' ''account'' ''mint'' 5 SELL_ALL) =
      [RouteInstruction ''a'', RouteInstruction ''b'', FeeTransfer ''account'' ''owner'' 3,
       CloseAccount ''account'' ''owner'']"
  using organizeInstructions_order[of "[RouteInstruction ''a'', RouteInstruction ''b'']"
      "Some (FeeTransfer ''account'' ''owner'' 3)"
      "createTokenCloseInstruction ''owner'' ''account'' ''mint'' 5 SELL_ALL"
      "''owner''" "''account''" "''mint''" 5 SELL_ALL]
  by (simp add: createTokenCloseInstruction_def)

subsection \<open>Swap streams\<close>

lemma state1_eq:
  "startSwapStream ''user'' request0 state0 = (Some 0, state1)"
  by (simp add: state1_def startSwapStream_def state0_def)

lemma state1_subs:
  "swapSubscriptions state1 ''user'' =
     Some \<lparr>subject = 0, subscription = \<lparr>handle = Suc 0, closed = False\<rparr>, request = request0\<rparr>"
  by (simp add: state1_def startSwapStream_def state0_def)

text \<open>
  C9.  A second \<open>startSwapStream\<close> for the same user, at the level of \<open>SwapService\<close> and of
  \<open>Service\<close>, changes nothing and returns the subject the first call returned; for a
  user with an active stream the call returns the stored subject and leaves the state as
  it is.  \<open>updateSwapRequest\<close> for an authenticated user without an active stream fails
  with "No active swap stream found to update" and leaves the state, and with it the
  registry and the trace of builds, as it is.
\<close>

theorem startSwapStream_twice_same_subject:
  "(startSwapStream u r1 s = (h1, s1) \<longrightarrow>
      h1 \<noteq> None \<and> startSwapStream u r2 s1 = (h1, s1))
   \<and> (Service_startSwapStream e jwt q1 s = (Inr h1, s1) \<longrightarrow>
      h1 \<noteq> None \<and> Service_startSwapStream e jwt q2 s1 = (Inr h1, s1))
   \<and> (hasActiveStream s1 u \<longrightarrow>
      startSwapStream u r2 s1 = (map_option subject (swapSubscriptions s1 u), s1))
   \<and> (getUserContext e jwt = Some (u, w) \<and> \<not> hasActiveStream s u \<longrightarrow>
      updateSwapRequest e jwt q2 s = (Inl NoActiveSwapStreamToUpdate, s))"
proof (intro conjI impI)
  assume a: "startSwapStream u r1 s = (h1, s1)"
  show "h1 \<noteq> None" using a by (cases "swapSubscriptions s u") (auto simp: startSwapStream_def)
  show "startSwapStream u r2 s1 = (h1, s1)"
    using a by (cases "swapSubscriptions s u") (auto simp: startSwapStream_def)
next
  assume a: "Service_startSwapStream e jwt q1 s = (Inr h1, s1)"
  then obtain uid wallet where ctx: "getUserContext e jwt = Some (uid, wallet)"
    by (auto simp: Service_startSwapStream_def split: option.splits)
  with a have st: "startSwapStream uid (activeRequestOf e wallet q1) s = (h1, s1)"
    by (simp add: Service_startSwapStream_def Let_def prod_eq_iff)
  then have "h1 \<noteq> None \<and> startSwapStream uid (activeRequestOf e wallet q2) s1 = (h1, s1)"
    by (cases "swapSubscriptions s uid") (auto simp: startSwapStream_def)
  then show "h1 \<noteq> None" "Service_startSwapStream e jwt q2 s1 = (Inr h1, s1)"
    using ctx by (simp_all add: Service_startSwapStream_def)
next
  assume "hasActiveStream s1 u"
  then show "startSwapStream u r2 s1 = (map_option subject (swapSubscriptions s1 u), s1)"
    by (auto simp: hasActiveStream_def startSwapStream_def)
next
  assume "getUserContext e jwt = Some (u, w) \<and> \<not> hasActiveStream s u"
  then show "updateSwapRequest e jwt q2 s = (Inl NoActiveSwapStreamToUpdate, s)"
    by (simp add: updateSwapRequest_def)
qed

theorem startSwapStream_twice_same_subject_witness:
  "startSwapStream ''user'' request0 state0 = (Some 0, state1)
   \<and> startSwapStream ''user'' request1 state1 = (Some 0, state1)
   \<and> Service_startSwapStream env0 ''jwt'' userRequest0 state0 = (Inr (Some 0), state1)
   \<and> Service_startSwapStream env0 ''jwt'' userRequest1 state1 = (Inr (Some 0), state1)
   \<and> hasActiveStream state1 ''user''
   \<and> getUserContext env0 ''jwt'' = Some (''user'', ''wallet'')
   \<and> \<not> hasActiveStream state0 ''user''
   \<and> updateSwapRequest env0 ''jwt'' userRequest1 state0 = (Inl NoActiveSwapStreamToUpdate, state0)"
proof -
  have a: "startSwapStream ''user'' request0 state0 = (Some 0, state1)" by (rule state1_eq)
  have b: "Service_startSwapStream env0 ''jwt'' userRequest0 state0 = (Inr (Some 0), state1)"
    using a by (simp add: Service_startSwapStream_def env0_def request0_def)
  have c: "hasActiveStream state1 ''user''" by (simp add: hasActiveStream_def state1_subs)
  have d: "getUserContext env0 ''jwt'' = Some (''user'', ''wallet'')" by (simp add: env0_def)
  have f: "\<not> hasActiveStream state0 ''user''" by (simp add: hasActiveStream_def state0_def)
  from startSwapStream_twice_same_subject[of "''user''" request0 state0 "Some 0" state1 request1
      env0 "''jwt''" userRequest0 userRequest1 "''wallet''"] a b c d f
  show ?thesis by simp
qed

subsection \<open>Evaluating the concrete world\<close>

lemmas world_defs = env0_def cfg0_def quote0_def state0_def userRequest0_def userRequest1_def
  request0_def request1_def activeRequestOf_def envQuoteDown_def

lemmas build_defs = buildSwapResponse_def Let_def truthy_def calculateFeeAmount_def feeBps_def
  createFeeTransferInstruction_def createTokenCloseInstruction_def swapInstructionRequest_def
  slippageSettings_slippageBps_def slippageSettings_autoSlippage_def organizeInstructions_def
  feeTransferInstructionFor_def swapResponse_def buildAndRegisterTransactionMessage_def

lemma build_quote_down:
  "buildSwapResponse envQuoteDown request1 cfg0 1 state0 = (Inl QuoteUnavailable, tick 1 state0)"
  by (simp add: world_defs build_defs tick_def)


lemma fetch0:
  "fetchSwap env0 ''jwt'' userRequest0 state0 =
     (Inr (swapResponse request0 ''bb'' True 1),
      (tick 1 state0)\<lparr>messageRegistry := [''bb'' \<mapsto>
         \<lparr>timestamp = 1, transactionType = BUY, autoSlippage = True, contextSlot = 7,
          buildAttempts = 1, activeSwapRequest = Some request0, cfg = Some cfg0,
          message = \<lparr>payerKey = ''feePayer'', recentBlockhash = ''bb'',
                     instructions = [SetComputeUnitLimit 200000, SetComputeUnitPrice 1,
                                     RouteInstruction ''route'',
                                     FeeTransfer ''sellAccount'' ''wallet'' 10000],
                     addressTableLookups = []\<rparr>,
          lastValidBlockHeight = 100\<rparr>]\<rparr>)"
  by (simp add: fetchSwap_def buildSwapResponseWithRebuild_def buildLoop.simps[of _ _ _ 1]
        world_defs build_defs tick_def)


lemma stateFetched_eq:
  "stateFetched = (tick 1 state0)\<lparr>messageRegistry := [''bb'' \<mapsto>
         \<lparr>timestamp = 1, transactionType = BUY, autoSlippage = True, contextSlot = 7,
          buildAttempts = 1, activeSwapRequest = Some request0, cfg = Some cfg0,
          message = \<lparr>payerKey = ''feePayer'', recentBlockhash = ''bb'',
                     instructions = [SetComputeUnitLimit 200000, SetComputeUnitPrice 1,
                                     RouteInstruction ''route'',
                                     FeeTransfer ''sellAccount'' ''wallet'' 10000],
                     addressTableLookups = []\<rparr>,
          lastValidBlockHeight = 100\<rparr>]\<rparr>"
  by (simp add: stateFetched_def fetch0)





lemma build0:
  "buildSwapResponse env0 request0 cfg0 1 state0 =
     (Inr (swapResponse request0 ''bb'' True 1), stateFetched)"
  by (simp add: stateFetched_eq) (simp add: world_defs build_defs tick_def)


lemma buildSell:
  "fst (buildSwapResponse envSell request0 cfg0 1 state0) = Inr (swapResponse request0 ''bb'' True 1)
   \<and> map_option (instructions \<circ> message)
        (messageRegistry (snd (buildSwapResponse envSell request0 cfg0 1 state0)) ''bb'') =
       Some [SetComputeUnitLimit 200000, SetComputeUnitPrice 1, RouteInstruction ''route'',
             FeeTransfer ''buyAccount'' ''wallet'' 25, CloseAccount ''sellAccount'' ''wallet'']"
  by (simp add: envSell_def world_defs build_defs Number_def)

subsection \<open>Bounded rebuilds\<close>

text \<open>
  C3 (as amended).  \<open>buildSwapResponseWithRebuild(request, cfg, priorAttempts)\<close> invokes the
  assembler with the consecutive attempt numbers \<open>priorAttempts + 1, ..., k\<close> for some
  \<open>k \<le> MAX_BUILD_ATTEMPTS\<close>, and not at all when \<open>priorAttempts \<ge> MAX_BUILD_ATTEMPTS\<close>;
  so it builds at most \<open>max 0 (MAX_BUILD_ATTEMPTS - priorAttempts)\<close> times.  For a
  request whose \<open>slippageBps\<close> is set, exactly one build is made provided
  \<open>priorAttempts < MAX_BUILD_ATTEMPTS\<close>, and its failure is surfaced at once.  Across a
  chain that starts with \<open>fetchSwap\<close> and continues through the rebuilt responses of
  \<open>signAndSendTransaction\<close>, at most \<open>MAX_BUILD_ATTEMPTS\<close> builds are made, counted by
  the configuration read at \<open>fetchSwap\<close> (the submitter itself is taken not to hand out
  rebuilt responses).
\<close>

theorem buildSwapResponseWithRebuild_attempts:
  "(\<exists>k. priorAttempts \<le> k \<and> (k \<le> MAX_BUILD_ATTEMPTS c \<or> k = priorAttempts)
        \<and> assemblerCalls (snd (buildSwapResponseWithRebuild e r c priorAttempts s)) =
            assemblerCalls s @ [priorAttempts + 1..k]
        \<and> length [priorAttempts + 1..k] \<le> nat (MAX_BUILD_ATTEMPTS c - priorAttempts))
   \<and> (slippageBps r \<noteq> None \<and> priorAttempts < MAX_BUILD_ATTEMPTS c \<longrightarrow>
        buildSwapResponseWithRebuild e r c priorAttempts s =
          (case buildSwapResponse e r c (priorAttempts + 1) s of
             (Inr response, s') \<Rightarrow> (Inr response, s')
           | (Inl err, s') \<Rightarrow> (Inl (FailedToBuildSwapResponseBecause err), s'))
        \<and> assemblerCalls (snd (buildSwapResponseWithRebuild e r c priorAttempts s)) =
            assemblerCalls s @ [priorAttempts + 1])
   \<and> ((\<forall>t w sg en lc reg resp.
          fst (TransactionService_signAndSendTransaction e t w sg en lc reg) = Returned resp \<longrightarrow> rebuilt resp = None) \<longrightarrow>
        length (assemblerCalls (requestChain e jwt q sgs s))
          \<le> length (assemblerCalls s) + nat (MAX_BUILD_ATTEMPTS (config e (clock s))))"
proof (intro conjI impI)
  obtain b s2 where b: "buildLoop e r c (priorAttempts + 1) s = (b, s2)"
    by (cases "buildLoop e r c (priorAttempts + 1) s")
  from buildLoop_chain[OF b] obtain kk where kk:
    "priorAttempts \<le> kk" "kk \<le> MAX_BUILD_ATTEMPTS c \<or> kk = priorAttempts"
    "assemblerCalls s2 = assemblerCalls s @ [priorAttempts + 1..kk]"
    by auto
  have "length [priorAttempts + 1..kk] \<le> nat (MAX_BUILD_ATTEMPTS c - priorAttempts)"
    using kk(1,2) by auto
  with kk b show "\<exists>k. priorAttempts \<le> k \<and> (k \<le> MAX_BUILD_ATTEMPTS c \<or> k = priorAttempts)
        \<and> assemblerCalls (snd (buildSwapResponseWithRebuild e r c priorAttempts s)) =
            assemblerCalls s @ [priorAttempts + 1..k]
        \<and> length [priorAttempts + 1..k] \<le> nat (MAX_BUILD_ATTEMPTS c - priorAttempts)"
    by (intro exI[of _ kk]) (simp add: buildSwapResponseWithRebuild_def)
next
  assume a: "slippageBps r \<noteq> None \<and> priorAttempts < MAX_BUILD_ATTEMPTS c"
  then have eq: "buildSwapResponseWithRebuild e r c priorAttempts s =
          (case buildSwapResponse e r c (priorAttempts + 1) s of
             (Inr response, s') \<Rightarrow> (Inr response, s')
           | (Inl err, s') \<Rightarrow> (Inl (FailedToBuildSwapResponseBecause err), s'))"
    using buildLoop_explicit_slippage[of r "priorAttempts + 1" c e s]
    by (simp add: buildSwapResponseWithRebuild_def)
  show "buildSwapResponseWithRebuild e r c priorAttempts s =
          (case buildSwapResponse e r c (priorAttempts + 1) s of
             (Inr response, s') \<Rightarrow> (Inr response, s')
           | (Inl err, s') \<Rightarrow> (Inl (FailedToBuildSwapResponseBecause err), s'))" by (rule eq)
  have "snd (buildSwapResponseWithRebuild e r c priorAttempts s) =
          snd (buildSwapResponse e r c (priorAttempts + 1) s)"
    unfolding eq by (simp split: prod.splits sum.splits)
  then show "assemblerCalls (snd (buildSwapResponseWithRebuild e r c priorAttempts s)) =
            assemblerCalls s @ [priorAttempts + 1]"
    by (simp add: buildSwapResponse_calls)
next
  assume "\<forall>t w sg en lc reg resp.
          fst (TransactionService_signAndSendTransaction e t w sg en lc reg) = Returned resp \<longrightarrow> rebuilt resp = None"
  then show "length (assemblerCalls (requestChain e jwt q sgs s))
          \<le> length (assemblerCalls s) + nat (MAX_BUILD_ATTEMPTS (config e (clock s)))"
    by (rule requestChain_bound)
qed

theorem buildSwapResponseWithRebuild_attempts_witness:
  "slippageBps request1 \<noteq> None \<and> 0 < MAX_BUILD_ATTEMPTS cfg0
   \<and> buildSwapResponseWithRebuild envQuoteDown request1 cfg0 0 state0 =
       (Inl (FailedToBuildSwapResponseBecause QuoteUnavailable), tick 1 state0)
   \<and> assemblerCalls (snd (buildSwapResponseWithRebuild envQuoteDown request1 cfg0 0 state0)) = [1]
   \<and> length (assemblerCalls (requestChain env0 ''jwt'' userRequest0 [''s1'', ''s2'', ''s3''] state0)) \<le> 3"
proof -
  have h1: "slippageBps request1 \<noteq> None \<and> 0 < MAX_BUILD_ATTEMPTS cfg0"
    by (simp add: world_defs Let_def)
  have h2: "\<forall>t w sg en lc reg resp.
          fst (TransactionService_signAndSendTransaction env0 t w sg en lc reg) = Returned resp \<longrightarrow> rebuilt resp = None"
    by (simp add: env0_def)
  note th = buildSwapResponseWithRebuild_attempts[of 0 cfg0 envQuoteDown request1 state0 "''jwt''" userRequest0 "[]"]
  note th' = buildSwapResponseWithRebuild_attempts[of 0 cfg0 env0 request1 state0 "''jwt''" userRequest0
      "[''s1'', ''s2'', ''s3'']"]
  from th[THEN conjunct2, THEN conjunct1] h1
  have a: "buildSwapResponseWithRebuild envQuoteDown request1 cfg0 0 state0 =
       (Inl (FailedToBuildSwapResponseBecause QuoteUnavailable), tick 1 state0)"
    by (simp add: build_quote_down)
  have b: "assemblerCalls (snd (buildSwapResponseWithRebuild envQuoteDown request1 cfg0 0 state0)) = [1]"
    unfolding a by (simp add: tick_def state0_def)
  from th'[THEN conjunct2, THEN conjunct2] h2
  have c: "length (assemblerCalls (requestChain env0 ''jwt'' userRequest0 [''s1'', ''s2'', ''s3''] state0)) \<le> 3"
    by (simp add: env0_def cfg0_def state0_def)
  from h1 a b c show ?thesis by blast
qed

text \<open>
  As stated, the claim promises exactly one build for every request with an explicit
  \<open>slippageBps\<close>.  With no budget (\<open>MAX_BUILD_ATTEMPTS = 0\<close>, or \<open>priorAttempts\<close> already at
  the maximum) the loop body never runs: no build is made and the function fails with
  "Failed to build swap response".
\<close>

theorem explicit_slippage_without_budget_counterexample:
  "slippageBps request1 \<noteq> None
   \<and> assemblerCalls (snd (buildSwapResponseWithRebuild env0 request1 (cfg0\<lparr>MAX_BUILD_ATTEMPTS := 0\<rparr>) 0 state0)) = []
   \<and> fst (buildSwapResponseWithRebuild env0 request1 (cfg0\<lparr>MAX_BUILD_ATTEMPTS := 0\<rparr>) 0 state0) = Inl FailedToBuildSwapResponse
   \<and> assemblerCalls (snd (buildSwapResponseWithRebuild env0 request1 cfg0 3 state0)) = []"
  by (simp add: buildSwapResponseWithRebuild_def buildLoop.simps[of _ _ _ 1] buildLoop.simps[of _ _ _ 4] world_defs Let_def)

subsection \<open>Slippage validation\<close>

text \<open>A non-zero \<open>slippageBps\<close> outside the range is rejected before the transaction type
  is determined or a quote requested; an unset one, a zero and one inside the range never
  raise a slippage error.\<close>

lemma slippage_guard_high:
  assumes "sellTokenAccount r \<noteq> None" "slippageBps r = Some b" "b \<noteq> 0" "USER_SLIPPAGE_BPS_MAX c < b"
  shows "buildSwapResponse e r c a s = (Inl SlippageTooHigh, tick a s)"
  using assms by (auto simp: buildSwapResponse_def truthy_def tick_def Let_def)

lemma slippage_guard_low:
  assumes "sellTokenAccount r \<noteq> None" "slippageBps r = Some b" "b \<noteq> 0"
    "b \<le> USER_SLIPPAGE_BPS_MAX c" "b < MIN_SLIPPAGE_BPS c"
  shows "buildSwapResponse e r c a s = (Inl (SlippageTooLow (MIN_SLIPPAGE_BPS c)), tick a s)"
  using assms by (auto simp: buildSwapResponse_def truthy_def tick_def Let_def)

lemma slippage_guard_pass:
  assumes "slippageBps r = None \<or> slippageBps r = Some 0
           \<or> (\<exists>b. slippageBps r = Some b \<and> MIN_SLIPPAGE_BPS c \<le> b \<and> b \<le> USER_SLIPPAGE_BPS_MAX c)"
  shows "fst (buildSwapResponse e r c a s) \<noteq> Inl SlippageTooHigh
       \<and> fst (buildSwapResponse e r c a s) \<noteq> Inl (SlippageTooLow m)"
  using assms
  by (auto simp: buildSwapResponse_def truthy_def Let_def calculateFeeAmount_def
        feeTransferInstructionFor_def createFeeTransferInstruction_def
      split: option.splits sum.splits if_splits)

text \<open>
  C6.  The claim wants every set \<open>slippageBps\<close> outside
  \<open>[MIN_SLIPPAGE_BPS, USER_SLIPPAGE_BPS_MAX]\<close> rejected.  The guards test
  \<open>request.slippageBps && ...\<close>, and 0 is falsy: with a minimum of 10, a request that pins
  0 basis points passes validation, is quoted with auto-slippage instead of its own value
  and is built.
\<close>

theorem zero_slippage_passes_validation:
  "slippageBps requestZero = Some 0 \<and> MIN_SLIPPAGE_BPS cfg0 = 10 \<and> USER_SLIPPAGE_BPS_MAX cfg0 = 1000
   \<and> fst (buildSwapResponse env0 requestZero cfg0 1 state0) = Inr (swapResponse requestZero ''bb'' True 1)
   \<and> quoteSlippageBps (swapInstructionRequest requestZero cfg0 990000) = None
   \<and> quoteAutoSlippage (swapInstructionRequest requestZero cfg0 990000) = True"
  by (simp add: requestZero_def world_defs build_defs)
subsection \<open>Transfers\<close>

text \<open>
  C8 (as amended).  A USDC transfer to a recipient whose token account holds no lamports:
  the rent-exemption fee is compared with the sender's token balance, read before anything
  is built and converted by \<open>Number\<close>.  When that number is below the fee (and so whenever
  the balance itself is, for balances up to \<open>2 ^ 53\<close> base units), \<open>getTransfer\<close> fails
  with the insufficient-balance error and the state, hence the registry, is untouched.
  Otherwise the registered TRANSFER message ends with a fee transfer of that amount out of
  the sender's token account.
\<close>

theorem getTransfer_rent_fee_checked_before_registering:
  assumes "tokenId r = USDC_MAINNET_PUBLIC_KEY"
    and "getBalance e (clock s) (getAssociatedTokenAddressSync e (tokenId r) (toAddress r)) = 0"
    and "fee = calculateRentExemptionFeeAmount e (clock s) (getMinimumBalanceForRentExemption e (clock s))"
    and "senderAccount = getAssociatedTokenAddressSync e (tokenId r) (fromAddress r)"
    and "balance = getTokenAccountBalance e (clock s) senderAccount"
  shows "(Number balance < fee \<longrightarrow>
            getTransfer e r s = (Inl InsufficientUsdcForRentExemption, s))
       \<and> (balance \<le> 2 ^ 53 \<and> int balance < fee \<longrightarrow>
            getTransfer e r s = (Inl InsufficientUsdcForRentExemption, s))
       \<and> (fee \<le> Number balance \<and> 0 \<le> fee \<longrightarrow>
            (\<exists>k ent. getTransfer e r s =
                 (Inr k, s\<lparr>messageRegistry := (messageRegistry s)(k \<mapsto> ent), clock := Suc (clock s)\<rparr>)
               \<and> transactionType ent = TRANSFER
               \<and> instructions (message ent) =
                   [SetComputeUnitLimit 40000, SetComputeUnitPrice 100000,
                    CreateAssociatedTokenAccount (feePayer e)
                      (getAssociatedTokenAddressSync e (tokenId r) (toAddress r)) (toAddress r) (tokenId r),
                    TokenTransfer senderAccount
                      (getAssociatedTokenAddressSync e (tokenId r) (toAddress r)) (fromAddress r) (transferAmount r),
                    FeeTransfer senderAccount (fromAddress r) fee]))"
proof (intro conjI impI)
  assume "Number balance < fee"
  with assms show "getTransfer e r s = (Inl InsufficientUsdcForRentExemption, s)"
    by (simp add: getTransfer_def Let_def USDC_MAINNET_PUBLIC_KEY_def)
next
  assume "balance \<le> 2 ^ 53 \<and> int balance < fee"
  then have "Number balance < fee" by (simp add: Number_exact)
  with assms show "getTransfer e r s = (Inl InsufficientUsdcForRentExemption, s)"
    by (simp add: getTransfer_def Let_def USDC_MAINNET_PUBLIC_KEY_def)
next
  assume "fee \<le> Number balance \<and> 0 \<le> fee"
  with assms show "\<exists>k ent. getTransfer e r s =
                 (Inr k, s\<lparr>messageRegistry := (messageRegistry s)(k \<mapsto> ent), clock := Suc (clock s)\<rparr>)
               \<and> transactionType ent = TRANSFER
               \<and> instructions (message ent) =
                   [SetComputeUnitLimit 40000, SetComputeUnitPrice 100000,
                    CreateAssociatedTokenAccount (feePayer e)
                      (getAssociatedTokenAddressSync e (tokenId r) (toAddress r)) (toAddress r) (tokenId r),
                    TokenTransfer senderAccount
                      (getAssociatedTokenAddressSync e (tokenId r) (toAddress r)) (fromAddress r) (transferAmount r),
                    FeeTransfer senderAccount (fromAddress r) fee]"
    by (auto simp: getTransfer_def Let_def USDC_MAINNET_PUBLIC_KEY_def registerTransfer_def
          registerTransaction_def createFeeTransferInstruction_def)
qed

theorem getTransfer_rent_fee_checked_before_registering_witness:
  "tokenId transferRequest0 = USDC_MAINNET_PUBLIC_KEY
   \<and> getBalance env0 (clock state0) (getAssociatedTokenAddressSync env0 (tokenId transferRequest0) (toAddress transferRequest0)) = 0
   \<and> getTokenAccountBalance env0 (clock state0) (getAssociatedTokenAddressSync env0 (tokenId transferRequest0) (fromAddress transferRequest0)) = 100
   \<and> Number 100 < 300 \<and> (100::nat) \<le> 2 ^ 53
   \<and> getTransfer env0 transferRequest0 state0 = (Inl InsufficientUsdcForRentExemption, state0)
   \<and> getTokenAccountBalance envFunded (clock state0) (getAssociatedTokenAddressSync envFunded (tokenId transferRequest0) (fromAddress transferRequest0)) = 1000
   \<and> 300 \<le> Number 1000
   \<and> (\<exists>k ent. getTransfer envFunded transferRequest0 state0 =
          (Inr k, state0\<lparr>messageRegistry := (messageRegistry state0)(k \<mapsto> ent), clock := Suc (clock state0)\<rparr>)
        \<and> transactionType ent = TRANSFER
        \<and> instructions (message ent) =
            [SetComputeUnitLimit 40000, SetComputeUnitPrice 100000,
             CreateAssociatedTokenAccount ''feePayer'' ''ata-bob'' ''bob'' USDC_MAINNET_PUBLIC_KEY,
             TokenTransfer ''ata-alice'' ''ata-bob'' ''alice'' 50,
             FeeTransfer ''ata-alice'' ''alice'' 300])"
proof -
  have a: "tokenId transferRequest0 = USDC_MAINNET_PUBLIC_KEY" by (simp add: transferRequest0_def)
  have b: "getBalance env0 (clock state0) (getAssociatedTokenAddressSync env0 (tokenId transferRequest0) (toAddress transferRequest0)) = 0"
    by (simp add: env0_def)
  have c: "300 = calculateRentExemptionFeeAmount env0 (clock state0) (getMinimumBalanceForRentExemption env0 (clock state0))"
    by (simp add: env0_def)
  have d: "100 = getTokenAccountBalance env0 (clock state0) (getAssociatedTokenAddressSync env0 (tokenId transferRequest0) (fromAddress transferRequest0))"
    by (simp add: env0_def)
  have b': "getBalance envFunded (clock state0) (getAssociatedTokenAddressSync envFunded (tokenId transferRequest0) (toAddress transferRequest0)) = 0"
    by (simp add: envFunded_def env0_def)
  have c': "300 = calculateRentExemptionFeeAmount envFunded (clock state0) (getMinimumBalanceForRentExemption envFunded (clock state0))"
    by (simp add: envFunded_def env0_def)
  have d': "1000 = getTokenAccountBalance envFunded (clock state0) (getAssociatedTokenAddressSync envFunded (tokenId transferRequest0) (fromAddress transferRequest0))"
    by (simp add: envFunded_def env0_def)
  have n: "Number 100 < 300" "(100::nat) \<le> 2 ^ 53" "300 \<le> Number 1000"
    by (simp_all add: Number_def)
  from getTransfer_rent_fee_checked_before_registering[OF a b c refl d, THEN conjunct1] n(1)
  have low: "getTransfer env0 transferRequest0 state0 = (Inl InsufficientUsdcForRentExemption, state0)"
    by simp
  from getTransfer_rent_fee_checked_before_registering[OF a b' c' refl d', THEN conjunct2, THEN conjunct2] n(3)
  have high: "\<exists>k ent. getTransfer envFunded transferRequest0 state0 =
          (Inr k, state0\<lparr>messageRegistry := (messageRegistry state0)(k \<mapsto> ent), clock := Suc (clock state0)\<rparr>)
        \<and> transactionType ent = TRANSFER
        \<and> instructions (message ent) =
            [SetComputeUnitLimit 40000, SetComputeUnitPrice 100000,
             CreateAssociatedTokenAccount ''feePayer'' ''ata-bob'' ''bob'' USDC_MAINNET_PUBLIC_KEY,
             TokenTransfer ''ata-alice'' ''ata-bob'' ''alice'' 50,
             FeeTransfer ''ata-alice'' ''alice'' 300]"
    by (simp add: envFunded_def env0_def transferRequest0_def)
  from a b d[symmetric] d'[symmetric] n low high show ?thesis by blast
qed

text \<open>
  As stated, the claim has \<open>getTransfer\<close> fail whenever the balance is below the fee.  The
  comparison is made on \<open>Number(balance)\<close>: a balance of 9007199254740995 base units is
  read as 9007199254740996, which is not below a fee of 9007199254740996, and the transfer
  is registered.
\<close>

theorem balance_below_fee_beyond_double_precision_counterexample:
  "tokenId transferRequest0 = USDC_MAINNET_PUBLIC_KEY
   \<and> getBalance envEdge (clock state0) ''ata-bob'' = 0
   \<and> getTokenAccountBalance envEdge (clock state0) ''ata-alice'' = 9007199254740995
   \<and> calculateRentExemptionFeeAmount envEdge (clock state0)
        (getMinimumBalanceForRentExemption envEdge (clock state0)) = 9007199254740996
   \<and> fst (getTransfer envEdge transferRequest0 state0) = Inr ''b''
   \<and> messageRegistry state0 ''b'' = None
   \<and> map_option (instructions \<circ> message)
        (messageRegistry (snd (getTransfer envEdge transferRequest0 state0)) ''b'') =
       Some [SetComputeUnitLimit 40000, SetComputeUnitPrice 100000,
             CreateAssociatedTokenAccount ''feePayer'' ''ata-bob'' ''bob'' USDC_MAINNET_PUBLIC_KEY,
             TokenTransfer ''ata-alice'' ''ata-bob'' ''alice'' 50,
             FeeTransfer ''ata-alice'' ''alice'' 9007199254740996]"
  by (simp add: getTransfer_def Let_def registerTransfer_def registerTransaction_def
        createFeeTransferInstruction_def transferRequest0_def envEdge_def env0_def state0_def
        Number_edge USDC_MAINNET_PUBLIC_KEY_def)

subsection \<open>What leaves the per-user stream map alone\<close>








subsection \<open>A second start of a stream\<close>






subsection \<open>Fees\<close>

lemma calculateFeeAmount_le:
  "calculateFeeAmount q ty c = Inr fee \<Longrightarrow> fee \<le> q"
  by (auto simp: calculateFeeAmount_def split: if_splits)

lemma buildSwapResponse_inversion:
  assumes "buildSwapResponse e r c a s = (Inr resp, s')"
  shows "sellTokenAccount r \<noteq> None
     \<and> \<not> isl (if determineTransactionType e (Suc (clock s)) r = BUY
             then calculateFeeAmount (sellQuantity r) BUY c else Inr 0)
     \<and> getSwapInstructions e (Suc (clock s))
          (swapInstructionRequest r c (sellQuantity r -
             projr (if determineTransactionType e (Suc (clock s)) r = BUY
                    then calculateFeeAmount (sellQuantity r) BUY c else Inr 0)))
          (userPublicKey r) \<noteq> None
     \<and> \<not> isl (feeTransferInstructionFor r c (determineTransactionType e (Suc (clock s)) r)
               (the (sellTokenAccount r))
               (projr (if determineTransactionType e (Suc (clock s)) r = BUY
                    then calculateFeeAmount (sellQuantity r) BUY c else Inr 0))
               (Number (outAmount (the (getSwapInstructions e (Suc (clock s))
                  (swapInstructionRequest r c (sellQuantity r -
                     projr (if determineTransactionType e (Suc (clock s)) r = BUY
                            then calculateFeeAmount (sellQuantity r) BUY c else Inr 0)))
                  (userPublicKey r))))))
     \<and> map_option (instructions \<circ> message) (messageRegistry s' (transactionMessageBase64 resp)) =
         Some (let res = the (getSwapInstructions e (Suc (clock s))
                  (swapInstructionRequest r c (sellQuantity r -
                     projr (if determineTransactionType e (Suc (clock s)) r = BUY
                            then calculateFeeAmount (sellQuantity r) BUY c else Inr 0)))
                  (userPublicKey r));
                   ty = determineTransactionType e (Suc (clock s)) r
               in optimizeComputeInstructions e (Suc (clock s))
                 (reassignRentInstructions e
                    (organizeInstructions (swapInstructions res)
                       (Some (projr (feeTransferInstructionFor r c ty (the (sellTokenAccount r))
                          (projr (if ty = BUY then calculateFeeAmount (sellQuantity r) BUY c else Inr 0))
                          (Number (outAmount res)))))
                       (createTokenCloseInstruction (userPublicKey r) (the (sellTokenAccount r))
                          (sellTokenId r) (sellQuantity r) ty)))
                 (addressLookupTableAccounts res)
                 (case quoteContextSlot res of None \<Rightarrow> 0 | Some n \<Rightarrow> n) c)"
  using assms
  by (auto simp: buildSwapResponse_def Let_def buildAndRegisterTransactionMessage_def
        swapResponse_def
      split: option.splits sum.splits if_splits)

text \<open>
  C5 (as amended).  In a build that succeeds, for a BUY the fee is computed from the
  requested sell quantity, the quote is requested for an amount equal to the sell quantity
  less that fee, and the fee-transfer instruction carries that fee out of the sell account;
  the fee is at most the sell quantity.  For a SELL (partial or all) the quote is requested
  for the whole sell quantity, and the fee is computed from \<open>Number(quote.outAmount)\<close> and
  carried out of the buy account; it is at most that number, which is the quoted output
  amount itself whenever this is at most \<open>2 ^ 53\<close>.  At 100 basis points a sell quantity
  of 1_000_000 gives a fee of 10_000 and a quoted amount of 990_000.
\<close>

theorem fee_before_quote_for_buy_after_quote_for_sell:
  assumes ok: "buildSwapResponse e r c a s = (Inr resp, s')"
  shows "(\<exists>sellAccount fee res quoteRequest.
           sellTokenAccount r = Some sellAccount
         \<and> getSwapInstructions e (Suc (clock s)) quoteRequest (userPublicKey r) = Some res
         \<and> (if determineTransactionType e (Suc (clock s)) r = BUY then
              calculateFeeAmount (sellQuantity r) BUY c = Inr fee
              \<and> quoteRequest = swapInstructionRequest r c (sellQuantity r - fee)
              \<and> amount quoteRequest = sellQuantity r - fee
              \<and> fee \<le> sellQuantity r
              \<and> map_option (instructions \<circ> message) (messageRegistry s' (transactionMessageBase64 resp)) =
                  Some (optimizeComputeInstructions e (Suc (clock s))
                    (reassignRentInstructions e
                       (organizeInstructions (swapInstructions res)
                          (Some (FeeTransfer sellAccount (userPublicKey r) fee)) None))
                    (addressLookupTableAccounts res)
                    (case quoteContextSlot res of None \<Rightarrow> 0 | Some n \<Rightarrow> n) c)
            else
              determineTransactionType e (Suc (clock s)) r \<in> {SELL_ALL, SELL_PARTIAL}
              \<and> quoteRequest = swapInstructionRequest r c (sellQuantity r)
              \<and> amount quoteRequest = sellQuantity r
              \<and> calculateFeeAmount (Number (outAmount res))
                    (determineTransactionType e (Suc (clock s)) r) c = Inr fee
              \<and> fee \<le> Number (outAmount res)
              \<and> (outAmount res \<le> 2 ^ 53 \<longrightarrow> fee \<le> int (outAmount res))
              \<and> map_option (instructions \<circ> message) (messageRegistry s' (transactionMessageBase64 resp)) =
                  Some (optimizeComputeInstructions e (Suc (clock s))
                    (reassignRentInstructions e
                       (organizeInstructions (swapInstructions res)
                          (Some (FeeTransfer (buyTokenAccount r) (userPublicKey r) fee))
                          (createTokenCloseInstruction (userPublicKey r) sellAccount (sellTokenId r)
                             (sellQuantity r) (determineTransactionType e (Suc (clock s)) r))))
                    (addressLookupTableAccounts res)
                    (case quoteContextSlot res of None \<Rightarrow> 0 | Some n \<Rightarrow> n) c)))
       \<and> (BUY_FEE_BPS c = 100 \<and> MIN_TRADE_SIZE c \<le> 1000000 \<longrightarrow>
            calculateFeeAmount 1000000 BUY c = Inr 10000
            \<and> amount (swapInstructionRequest r c (1000000 - 10000)) = 990000)"
proof (intro conjI impI)
  let ?ty = "determineTransactionType e (Suc (clock s)) r"
  let ?bf = "if ?ty = BUY then calculateFeeAmount (sellQuantity r) BUY c else Inr 0"
  let ?q = "getSwapInstructions e (Suc (clock s))
              (swapInstructionRequest r c (sellQuantity r - projr ?bf)) (userPublicKey r)"
  note inv = buildSwapResponse_inversion[OF ok]
  from inv obtain sellAccount where sa: "sellTokenAccount r = Some sellAccount" by auto
  from inv obtain bfee where bf: "?bf = Inr bfee" by (cases ?bf) auto
  from inv bf obtain res where q: "?q = Some res" by auto
  from inv sa bf q obtain feeIx where
    fi: "feeTransferInstructionFor r c ?ty sellAccount bfee (Number (outAmount res)) = Inr feeIx"
    by (cases "feeTransferInstructionFor r c ?ty sellAccount bfee (Number (outAmount res))") auto
  from inv sa bf q fi have ins:
    "map_option (instructions \<circ> message) (messageRegistry s' (transactionMessageBase64 resp)) =
       Some (optimizeComputeInstructions e (Suc (clock s))
              (reassignRentInstructions e
                 (organizeInstructions (swapInstructions res) (Some feeIx)
                    (createTokenCloseInstruction (userPublicKey r) sellAccount (sellTokenId r)
                       (sellQuantity r) ?ty)))
              (addressLookupTableAccounts res)
              (case quoteContextSlot res of None \<Rightarrow> 0 | Some n \<Rightarrow> n) c)"
    by (simp add: Let_def)
  have am: "amount (swapInstructionRequest r c x) = x" for x
    by (simp add: swapInstructionRequest_def)
  show "\<exists>sellAccount fee res quoteRequest.
           sellTokenAccount r = Some sellAccount
         \<and> getSwapInstructions e (Suc (clock s)) quoteRequest (userPublicKey r) = Some res
         \<and> (if ?ty = BUY then
              calculateFeeAmount (sellQuantity r) BUY c = Inr fee
              \<and> quoteRequest = swapInstructionRequest r c (sellQuantity r - fee)
              \<and> amount quoteRequest = sellQuantity r - fee
              \<and> fee \<le> sellQuantity r
              \<and> map_option (instructions \<circ> message) (messageRegistry s' (transactionMessageBase64 resp)) =
                  Some (optimizeComputeInstructions e (Suc (clock s))
                    (reassignRentInstructions e
                       (organizeInstructions (swapInstructions res)
                          (Some (FeeTransfer sellAccount (userPublicKey r) fee)) None))
                    (addressLookupTableAccounts res)
                    (case quoteContextSlot res of None \<Rightarrow> 0 | Some n \<Rightarrow> n) c)
            else
              ?ty \<in> {SELL_ALL, SELL_PARTIAL}
              \<and> quoteRequest = swapInstructionRequest r c (sellQuantity r)
              \<and> amount quoteRequest = sellQuantity r
              \<and> calculateFeeAmount (Number (outAmount res)) ?ty c = Inr fee
              \<and> fee \<le> Number (outAmount res)
              \<and> (outAmount res \<le> 2 ^ 53 \<longrightarrow> fee \<le> int (outAmount res))
              \<and> map_option (instructions \<circ> message) (messageRegistry s' (transactionMessageBase64 resp)) =
                  Some (optimizeComputeInstructions e (Suc (clock s))
                    (reassignRentInstructions e
                       (organizeInstructions (swapInstructions res)
                          (Some (FeeTransfer (buyTokenAccount r) (userPublicKey r) fee))
                          (createTokenCloseInstruction (userPublicKey r) sellAccount (sellTokenId r)
                             (sellQuantity r) ?ty)))
                    (addressLookupTableAccounts res)
                    (case quoteContextSlot res of None \<Rightarrow> 0 | Some n \<Rightarrow> n) c))"
  proof (cases "?ty = BUY")
    case True
    with bf have cf: "calculateFeeAmount (sellQuantity r) BUY c = Inr bfee" by simp
    from calculateFeeAmount_le[OF cf] have le: "bfee \<le> sellQuantity r" .
    from fi True have fx: "feeIx = FeeTransfer sellAccount (userPublicKey r) bfee"
      by (auto simp: feeTransferInstructionFor_def createFeeTransferInstruction_def split: if_splits)
    from q bf have q': "getSwapInstructions e (Suc (clock s))
                   (swapInstructionRequest r c (sellQuantity r - bfee)) (userPublicKey r) = Some res"
      by simp
    from True have cl: "createTokenCloseInstruction (userPublicKey r) sellAccount (sellTokenId r)
                       (sellQuantity r) ?ty = None"
      by (simp add: createTokenCloseInstruction_def)
    from True sa cf q' le ins fx cl am show ?thesis
      by (intro exI[of _ sellAccount] exI[of _ bfee] exI[of _ res]
            exI[of _ "swapInstructionRequest r c (sellQuantity r - bfee)"]) simp
  next
    case False
    with bf have z: "bfee = 0" by simp
    from fi False obtain sfee where
      sell: "?ty = SELL_ALL \<or> ?ty = SELL_PARTIAL"
      and cf: "calculateFeeAmount (Number (outAmount res)) ?ty c = Inr sfee"
      and fx: "feeIx = FeeTransfer (buyTokenAccount r) (userPublicKey r) sfee"
      by (auto simp: feeTransferInstructionFor_def createFeeTransferInstruction_def
            split: if_splits sum.splits)
    from calculateFeeAmount_le[OF cf] have le: "sfee \<le> Number (outAmount res)" .
    have le': "outAmount res \<le> 2 ^ 53 \<longrightarrow> sfee \<le> int (outAmount res)"
    proof
      assume "outAmount res \<le> 2 ^ 53"
      from Number_exact[OF this] le show "sfee \<le> int (outAmount res)" by simp
    qed
    from q bf z have q': "getSwapInstructions e (Suc (clock s))
                   (swapInstructionRequest r c (sellQuantity r)) (userPublicKey r) = Some res"
      by simp
    from False sa sell cf q' le le' ins fx am show ?thesis
      by (intro exI[of _ sellAccount] exI[of _ sfee] exI[of _ res]
            exI[of _ "swapInstructionRequest r c (sellQuantity r)"]) auto
  qed
next
  assume "BUY_FEE_BPS c = 100 \<and> MIN_TRADE_SIZE c \<le> 1000000"
  then show "calculateFeeAmount 1000000 BUY c = Inr 10000"
    by (simp add: calculateFeeAmount_def feeBps_def)
  show "amount (swapInstructionRequest r c (1000000 - 10000)) = 990000"
    by (simp add: swapInstructionRequest_def)
qed

theorem fee_before_quote_for_buy_after_quote_for_sell_witness:
  "buildSwapResponse env0 request0 cfg0 1 state0 = (Inr (swapResponse request0 ''bb'' True 1), stateFetched)
   \<and> BUY_FEE_BPS cfg0 = 100 \<and> MIN_TRADE_SIZE cfg0 \<le> 1000000
   \<and> determineTransactionType env0 (Suc (clock state0)) request0 = BUY
   \<and> sellQuantity request0 = 1000000
   \<and> calculateFeeAmount (sellQuantity request0) BUY cfg0 = Inr 10000
   \<and> getSwapInstructions env0 (Suc (clock state0))
        (swapInstructionRequest request0 cfg0 (sellQuantity request0 - 10000)) (userPublicKey request0) = Some quote0
   \<and> amount (swapInstructionRequest request0 cfg0 (sellQuantity request0 - 10000)) = 990000
   \<and> map_option (instructions \<circ> message) (messageRegistry stateFetched ''bb'') =
       Some [SetComputeUnitLimit 200000, SetComputeUnitPrice 1, RouteInstruction ''route'',
             FeeTransfer ''sellAccount'' ''wallet'' 10000]
   \<and> fst (buildSwapResponse envSell request0 cfg0 1 state0) = Inr (swapResponse request0 ''bb'' True 1)
   \<and> determineTransactionType envSell (Suc (clock state0)) request0 = SELL_ALL
   \<and> (\<exists>fee res.
         getSwapInstructions envSell (Suc (clock state0))
            (swapInstructionRequest request0 cfg0 (sellQuantity request0)) (userPublicKey request0) = Some res
       \<and> amount (swapInstructionRequest request0 cfg0 (sellQuantity request0)) = 1000000
       \<and> outAmount res \<le> 2 ^ 53
       \<and> calculateFeeAmount (Number (outAmount res)) SELL_ALL cfg0 = Inr fee
       \<and> fee \<le> int (outAmount res))
   \<and> calculateFeeAmount (Number (outAmount quote0)) SELL_ALL cfg0 = Inr 25
   \<and> map_option (instructions \<circ> message)
        (messageRegistry (snd (buildSwapResponse envSell request0 cfg0 1 state0)) ''bb'') =
       Some [SetComputeUnitLimit 200000, SetComputeUnitPrice 1, RouteInstruction ''route'',
             FeeTransfer ''buyAccount'' ''wallet'' 25, CloseAccount ''sellAccount'' ''wallet'']"
proof -
  have h': "BUY_FEE_BPS cfg0 = 100 \<and> MIN_TRADE_SIZE cfg0 \<le> 1000000" by (simp add: cfg0_def)
  note th = fee_before_quote_for_buy_after_quote_for_sell[OF build0]
  from th[THEN conjunct2] h' have ex: "calculateFeeAmount 1000000 BUY cfg0 = Inr 10000"
    "amount (swapInstructionRequest request0 cfg0 (1000000 - 10000)) = 990000" by simp_all
  have ty: "determineTransactionType env0 (Suc (clock state0)) request0 = BUY" by (simp add: env0_def)
  have sq: "sellQuantity request0 = 1000000" by (simp add: world_defs Let_def)
  have q: "getSwapInstructions env0 (Suc (clock state0))
        (swapInstructionRequest request0 cfg0 (sellQuantity request0 - 10000)) (userPublicKey request0) = Some quote0"
    by (simp add: env0_def)
  have ins: "map_option (instructions \<circ> message) (messageRegistry stateFetched ''bb'') =
       Some [SetComputeUnitLimit 200000, SetComputeUnitPrice 1, RouteInstruction ''route'',
             FeeTransfer ''sellAccount'' ''wallet'' 10000]"
    by (simp add: stateFetched_eq)
  have tyS: "determineTransactionType envSell (Suc (clock state0)) request0 = SELL_ALL"
    by (simp add: envSell_def env0_def)
  have qS: "getSwapInstructions envSell (Suc (clock state0)) x (userPublicKey request0) = Some quote0" for x
    by (simp add: envSell_def env0_def)
  have small: "outAmount quote0 \<le> 2 ^ 53" by (simp add: quote0_def)
  have feeS: "calculateFeeAmount (Number (outAmount quote0)) SELL_ALL cfg0 = Inr 25"
    by (simp add: calculateFeeAmount_def feeBps_def quote0_def cfg0_def Number_def)
  have bS: "buildSwapResponse envSell request0 cfg0 1 state0 =
      (Inr (swapResponse request0 ''bb'' True 1), snd (buildSwapResponse envSell request0 cfg0 1 state0))"
    using buildSell by (simp add: prod_eq_iff)
  from fee_before_quote_for_buy_after_quote_for_sell[OF bS, THEN conjunct1] tyS qS small sq
  have exS: "\<exists>fee res.
         getSwapInstructions envSell (Suc (clock state0))
            (swapInstructionRequest request0 cfg0 (sellQuantity request0)) (userPublicKey request0) = Some res
       \<and> amount (swapInstructionRequest request0 cfg0 (sellQuantity request0)) = 1000000
       \<and> outAmount res \<le> 2 ^ 53
       \<and> calculateFeeAmount (Number (outAmount res)) SELL_ALL cfg0 = Inr fee
       \<and> fee \<le> int (outAmount res)"
    by auto
  have ex1: "calculateFeeAmount (sellQuantity request0) BUY cfg0 = Inr 10000"
    using ex(1) sq by simp
  have ex2: "amount (swapInstructionRequest request0 cfg0 (sellQuantity request0 - 10000)) = 990000"
    using ex(2) sq by simp
  note h1 = h'[THEN conjunct1] and h2 = h'[THEN conjunct2]
  note b0 = build0
  note bs1 = buildSell[THEN conjunct1] and bs2 = buildSell[THEN conjunct2]
  show ?thesis by (intro conjI; fact)
qed

text \<open>
  As stated, the claim bounds the fee of a SELL by the quoted output amount.  The fee is
  computed from \<open>Number(quote.outAmount)\<close>: a quoted output of 9007199254740995 base units
  is read as 9007199254740996, and under a sell fee of 10000 basis points the fee
  transferred is 9007199254740996, one more than the quoted output.
\<close>

theorem sell_fee_above_quoted_output_counterexample:
  "determineTransactionType envSellBig (Suc (clock state0)) request0 = SELL_ALL
   \<and> map_option outAmount
        (getSwapInstructions envSellBig (Suc (clock state0))
           (swapInstructionRequest request0 cfgFullFee (sellQuantity request0)) (userPublicKey request0)) =
       Some 9007199254740995
   \<and> SELL_FEE_BPS cfgFullFee = 10000
   \<and> fst (buildSwapResponse envSellBig request0 cfgFullFee 1 state0) =
       Inr (swapResponse request0 ''bb'' True 1)
   \<and> map_option (instructions \<circ> message)
        (messageRegistry (snd (buildSwapResponse envSellBig request0 cfgFullFee 1 state0)) ''bb'') =
       Some [SetComputeUnitLimit 200000, SetComputeUnitPrice 1, RouteInstruction ''route'',
             FeeTransfer ''buyAccount'' ''wallet'' 9007199254740996,
             CloseAccount ''sellAccount'' ''wallet'']"
  by (simp add: envSellBig_def envSell_def cfgFullFee_def world_defs build_defs Number_edge)

subsection \<open>Fail or rebuild\<close>


lemma buildWithRebuild_not_submission_error:
  "fst (buildSwapResponseWithRebuild e r c p s) \<noteq> Inl (SubmissionError x)
   \<and> fst (buildSwapResponseWithRebuild e r c p s) \<noteq> Inl (SubmissionRejected x)"
proof -
  obtain b s2 where b: "buildLoop e r c (p + 1) s = (b, s2)" by (cases "buildLoop e r c (p + 1) s")
  from buildLoop_trace[OF b] show ?thesis
    by (cases b) (auto simp: buildSwapResponseWithRebuild_def b)
qed





subsection \<open>Consuming registry entries\<close>













end
